theory Spec2Isabelle
  imports Complex_Main
begin

section \<open>Data model\<close>

text \<open>
  The entities of \<^verbatim>\<open>src/lib/sync/cart-sync.ts\<close> and of the two route handlers, as the
  code reads and writes them. Timestamps (\<^verbatim>\<open>Date\<close>) are milliseconds since the epoch, an
  \<open>int\<close>. A number held in a field (a price, a total, a discount amount, a quantity)
  is the value of an IEEE 754 double, written as the rational or the integer it is;
  what the code computes from such numbers is rounded as the doubles are, see \<open>jsnum\<close>
  below. A string is the list of its UTF-8 bytes. A nullable column is an \<open>option\<close>.
\<close>

datatype RecoveryStatus = NONE | ABANDONED | NOTIFIED_FIRST | NOTIFIED_FINAL | RECOVERED | LOST

record MetastoreCartItem =
  item_id :: string
  item_name :: string
  price :: rat
  quantity :: int
  image :: "string option"

record ShopifyCartItem =
  merchandiseId :: string
  line_quantity :: int

record Cart =
  cart_id :: string
  storeId :: string
  customerName :: "string option"
  customerEmail :: "string option"
  customerPhone :: "string option"
  items :: "MetastoreCartItem list"
  total :: rat
  updatedAt :: int
  abandonedAt :: "int option"
  recoveryStatus :: RecoveryStatus
  lastNotifiedAt :: "int option"
  recoveredAt :: "int option"
  discountCode :: "string option"
  discountAmount :: "rat option"
  shopifyCartId :: "string option"

record Store =
  store_id :: string
  store_name :: string
  isActive :: bool
  shopifyAccessToken :: "string option"
  shopifyStoreUrl :: "string option"
  whatsappPhoneNumberId :: "string option"
  whatsappAccessToken :: "string option"

record ProductMapping =
  pm_storeId :: string
  metastoreProductId :: string
  shopifyVariantId :: string

record Product =
  product_id :: string
  product_name :: string
  product_price :: rat
  images :: "string list"

record Database =
  carts :: "Cart list"
  stores :: "Store list"
  productMappings :: "ProductMapping list"
  products :: "Product list"

text \<open>JavaScript truthiness of a nullable string: \<^verbatim>\<open>null\<close>, \<^verbatim>\<open>undefined\<close> and the empty
  string are falsy.\<close>

fun truthy :: "string option \<Rightarrow> bool" where
  "truthy None = False"
| "truthy (Some s) = (s \<noteq> [])"

text \<open>Truthiness of a nullable finite number: \<^verbatim>\<open>null\<close> and \<open>0\<close> are falsy.\<close>

fun truthy_num :: "rat option \<Rightarrow> bool" where
  "truthy_num None = False"
| "truthy_num (Some x) = (x \<noteq> 0)"

text \<open>\<^verbatim>\<open>x || undefined\<close> on a nullable string.\<close>

definition or_undefined :: "string option \<Rightarrow> string option" where
  "or_undefined x = (if truthy x then x else None)"

section \<open>The record store\<close>

text \<open>
  The operations of the Prisma client that the code calls. A cart is looked up by its
  primary key with \<open>cart_findUnique\<close>; \<open>cart_update\<close> raises when no row has the key
  (\<open>None\<close> here), and \<open>cart_create\<close> raises when the key is taken. Every other
  operation always returns.
\<close>

definition cart_findUnique :: "Database \<Rightarrow> string \<Rightarrow> Cart option" where
  "cart_findUnique db cid = find (\<lambda>c. cart_id c = cid) (carts db)"

definition cart_findFirst :: "Database \<Rightarrow> (Cart \<Rightarrow> bool) \<Rightarrow> Cart option" where
  "cart_findFirst db P = find P (carts db)"

definition cart_findMany :: "Database \<Rightarrow> (Cart \<Rightarrow> bool) \<Rightarrow> Cart list" where
  "cart_findMany db P = filter P (carts db)"

definition cart_count :: "Database \<Rightarrow> (Cart \<Rightarrow> bool) \<Rightarrow> nat" where
  "cart_count db P = length (filter P (carts db))"

definition cart_update :: "Database \<Rightarrow> string \<Rightarrow> (Cart \<Rightarrow> Cart) \<Rightarrow> Database option" where
  "cart_update db cid f =
     (case cart_findUnique db cid of
        None \<Rightarrow> None
      | Some _ \<Rightarrow> Some (db\<lparr>carts := map (\<lambda>c. if cart_id c = cid then f c else c) (carts db)\<rparr>))"

definition cart_updateMany :: "Database \<Rightarrow> (Cart \<Rightarrow> bool) \<Rightarrow> (Cart \<Rightarrow> Cart) \<Rightarrow> nat \<times> Database" where
  "cart_updateMany db P f =
     (length (filter P (carts db)),
      db\<lparr>carts := map (\<lambda>c. if P c then f c else c) (carts db)\<rparr>)"

definition cart_create :: "Database \<Rightarrow> Cart \<Rightarrow> Database option" where
  "cart_create db c =
     (if cart_id c \<in> set (map cart_id (carts db)) then None
      else Some (db\<lparr>carts := carts db @ [c]\<rparr>))"

definition store_findUnique :: "Database \<Rightarrow> string \<Rightarrow> Store option" where
  "store_findUnique db sid = find (\<lambda>s. store_id s = sid) (stores db)"

definition productMapping_findFirst :: "Database \<Rightarrow> (ProductMapping \<Rightarrow> bool) \<Rightarrow> ProductMapping option" where
  "productMapping_findFirst db P = find P (productMappings db)"

definition product_findUnique :: "Database \<Rightarrow> string \<Rightarrow> Product option" where
  "product_findUnique db pid = find (\<lambda>p. product_id p = pid) (products db)"

section \<open>The service object\<close>

text \<open>
  \<^verbatim>\<open>class CartSyncService\<close>: the store id given to the constructor and the two
  credentials, \<^verbatim>\<open>undefined\<close> until \<^verbatim>\<open>initialize\<close> has stored them.
\<close>

record CartSyncService =
  svc_storeId :: string
  svc_shopifyAccessToken :: "string option"
  svc_shopifyStoreUrl :: "string option"

definition new_CartSyncService :: "string \<Rightarrow> CartSyncService" where
  "new_CartSyncService sid =
     \<lparr>svc_storeId = sid, svc_shopifyAccessToken = None, svc_shopifyStoreUrl = None\<rparr>"

definition initialize :: "CartSyncService \<Rightarrow> Database \<Rightarrow> bool \<times> CartSyncService" where
  "initialize svc db =
     (case store_findUnique db (svc_storeId svc) of
        None \<Rightarrow> (False, svc)
      | Some store \<Rightarrow>
          if \<not> truthy (shopifyAccessToken store) \<or> \<not> truthy (shopifyStoreUrl store)
          then (False, svc)
          else (True, svc\<lparr>svc_shopifyAccessToken := shopifyAccessToken store,
                          svc_shopifyStoreUrl := shopifyStoreUrl store\<rparr>))"

section \<open>JavaScript numbers and their rendering\<close>

text \<open>
  A JavaScript number is an IEEE 754 double: a finite value, which is a rational, one of
  the two infinities, or NaN. Zero carries no sign here (the record store holds no
  negative zero, and a result that underflows is the zero).
\<close>

datatype jsnum = Fin rat | PosInf | NegInf | NaN

text \<open>The number of binary digits of a natural number.\<close>

fun bitlength :: "nat \<Rightarrow> nat" where
  "bitlength n = (if n = 0 then 0 else Suc (bitlength (n div 2)))"

declare bitlength.simps [simp del]

text \<open>\<open>pow2 e\<close> is \<open>2\<close> to the power \<open>e\<close>, also for a negative \<open>e\<close>; \<open>binade x\<close> is, for
  a positive \<open>x\<close>, the exponent \<open>e\<close> with \<open>2 ^ e \<le> x < 2 ^ (e + 1)\<close>.\<close>

definition pow2 :: "int \<Rightarrow> rat" where
  "pow2 e = (if e \<ge> 0 then 2 ^ nat e else 1 / 2 ^ nat (- e))"

definition binade :: "rat \<Rightarrow> int" where
  "binade x =
     (if x \<ge> 1 then int (bitlength (nat \<lfloor>x\<rfloor>)) - 1
      else - int (bitlength (nat (\<lceil>1 / x\<rceil> - 1))))"

text \<open>The closest integer, the even one of the two on a tie.\<close>

definition roundHalfEven :: "rat \<Rightarrow> int" where
  "roundHalfEven q =
     (let n = \<lfloor>q\<rfloor>; r = q - of_int n
      in if r < 1 / 2 then n else if r > 1 / 2 then n + 1 else if even n then n else n + 1)"

text \<open>
  \<open>toDouble x\<close> rounds a rational to binary64, to nearest and to even on a tie. The
  magnitude is measured in units of the last place of its binade: 53 significant bits,
  and below \<open>2 ^ - 1022\<close> the fixed unit \<open>2 ^ - 1074\<close> of the subnormal numbers. A
  rounded magnitude of \<open>2 ^ 1024\<close> or more is the infinity.
\<close>

definition toDouble :: "rat \<Rightarrow> jsnum" where
  "toDouble x =
     (if x = 0 then Fin 0
      else (let a = \<bar>x\<bar>;
                e = max (binade a) (- 1022);
                ulp = pow2 (e - 52);
                y = of_int (roundHalfEven (a / ulp)) * ulp
            in if binade y \<ge> 1024 then (if x > 0 then PosInf else NegInf)
               else Fin (if x > 0 then y else - y)))"

text \<open>The four operations of the code on numbers. Each rounds the exact result of
  finite operands once; the other cases are those of IEEE 754.\<close>

fun jssign :: "jsnum \<Rightarrow> int" where
  "jssign (Fin a) = (if a > 0 then 1 else if a < 0 then - 1 else 0)"
| "jssign PosInf = 1"
| "jssign NegInf = - 1"
| "jssign NaN = 0"

fun jsneg :: "jsnum \<Rightarrow> jsnum" where
  "jsneg (Fin a) = Fin (- a)"
| "jsneg PosInf = NegInf"
| "jsneg NegInf = PosInf"
| "jsneg NaN = NaN"

fun jsadd :: "jsnum \<Rightarrow> jsnum \<Rightarrow> jsnum" where
  "jsadd NaN y = NaN"
| "jsadd x NaN = NaN"
| "jsadd (Fin a) (Fin b) = toDouble (a + b)"
| "jsadd PosInf NegInf = NaN"
| "jsadd NegInf PosInf = NaN"
| "jsadd PosInf y = PosInf"
| "jsadd NegInf y = NegInf"
| "jsadd (Fin a) y = y"

definition jssub :: "jsnum \<Rightarrow> jsnum \<Rightarrow> jsnum" where
  "jssub x y = jsadd x (jsneg y)"

fun jsmul :: "jsnum \<Rightarrow> jsnum \<Rightarrow> jsnum" where
  "jsmul NaN y = NaN"
| "jsmul x NaN = NaN"
| "jsmul (Fin a) (Fin b) = toDouble (a * b)"
| "jsmul x y =
     (let s = jssign x * jssign y
      in if s = 0 then NaN else if s > 0 then PosInf else NegInf)"

fun jsdiv :: "jsnum \<Rightarrow> jsnum \<Rightarrow> jsnum" where
  "jsdiv NaN y = NaN"
| "jsdiv x NaN = NaN"
| "jsdiv (Fin a) (Fin b) =
     (if b = 0 then (if a = 0 then NaN else if a > 0 then PosInf else NegInf)
      else toDouble (a / b))"
| "jsdiv (Fin a) y = Fin 0"
| "jsdiv x (Fin b) = (if b \<ge> 0 then x else jsneg x)"
| "jsdiv x y = NaN"

fun natToString :: "nat \<Rightarrow> string" where
  "natToString n =
     (if n < 10 then [''0123456789'' ! n]
      else natToString (n div 10) @ [''0123456789'' ! (n mod 10)])"

declare natToString.simps [simp del]

text \<open>
  \<^verbatim>\<open>Number.prototype.toFixed(f)\<close> (ECMAScript 21.1.3.3): the sign, then the closest
  integer to \<open>x * 10 ^ f\<close> (the larger one on a tie) with a decimal point before its last
  \<open>f\<close> digits, padded with zeros on the left. A magnitude of \<open>10 ^ 21\<close> or more is
  printed in exponent notation; that rendering is the parameter \<open>expo\<close>.
\<close>

definition fixedDigits :: "rat \<Rightarrow> nat \<Rightarrow> string" where
  "fixedDigits x f =
     (let n = nat \<lfloor>x * 10 ^ f + 1 / 2\<rfloor>;
          m = natToString n
      in if f \<noteq> 0
         then (let k = length m;
                   z = (if k \<le> f then replicate (f + 1 - k) (CHR ''0'') @ m else m);
                   k' = length z
               in take (k' - f) z @ ''.'' @ drop (k' - f) z)
         else m)"

fun toFixed :: "(rat \<Rightarrow> string) \<Rightarrow> jsnum \<Rightarrow> nat \<Rightarrow> string" where
  "toFixed expo NaN f = ''NaN''"
| "toFixed expo PosInf f = ''Infinity''"
| "toFixed expo NegInf f = ''-Infinity''"
| "toFixed expo (Fin x) f =
     (if x < 0 then ''-'' else []) @
     (if \<bar>x\<bar> \<ge> 10 ^ 21 then expo \<bar>x\<bar> else fixedDigits \<bar>x\<bar> f)"

text \<open>\<^verbatim>\<open>`${n}`\<close> for an integer \<open>n\<close>.\<close>

definition intToString :: "(rat \<Rightarrow> string) \<Rightarrow> int \<Rightarrow> string" where
  "intToString expo n =
     (if n < 0 then ''-'' else []) @
     (if \<bar>n\<bar> \<ge> 10 ^ 21 then expo (of_int \<bar>n\<bar>) else natToString (nat \<bar>n\<bar>))"

text \<open>
  \<^verbatim>\<open>String.prototype.trim\<close>. The white space and line terminators of ECMAScript, as
  UTF-8: TAB, LF, VT, FF, CR, SP, then U+00A0, U+1680, U+2000 to U+200A, U+2028, U+2029,
  U+202F, U+205F, U+3000 and U+FEFF.
\<close>

definition whiteSpace :: "string list" where
  "whiteSpace =
     [[CHR 0x09], [CHR 0x0A], [CHR 0x0B], [CHR 0x0C], [CHR 0x0D], [CHR 0x20],
      [CHR 0xC2, CHR 0xA0], [CHR 0xE1, CHR 0x9A, CHR 0x80],
      [CHR 0xE2, CHR 0x80, CHR 0x80], [CHR 0xE2, CHR 0x80, CHR 0x81],
      [CHR 0xE2, CHR 0x80, CHR 0x82], [CHR 0xE2, CHR 0x80, CHR 0x83],
      [CHR 0xE2, CHR 0x80, CHR 0x84], [CHR 0xE2, CHR 0x80, CHR 0x85],
      [CHR 0xE2, CHR 0x80, CHR 0x86], [CHR 0xE2, CHR 0x80, CHR 0x87],
      [CHR 0xE2, CHR 0x80, CHR 0x88], [CHR 0xE2, CHR 0x80, CHR 0x89],
      [CHR 0xE2, CHR 0x80, CHR 0x8A], [CHR 0xE2, CHR 0x80, CHR 0xA8],
      [CHR 0xE2, CHR 0x80, CHR 0xA9], [CHR 0xE2, CHR 0x80, CHR 0xAF],
      [CHR 0xE2, CHR 0x81, CHR 0x9F], [CHR 0xE3, CHR 0x80, CHR 0x80],
      [CHR 0xEF, CHR 0xBB, CHR 0xBF]]"

text \<open>The length of the sequence of \<open>ws\<close> that a string starts with, \<open>0\<close> when it starts
  with none; \<open>dropSpaces\<close> removes such sequences from the front until none is left.\<close>

definition leadingSpace :: "string list \<Rightarrow> string \<Rightarrow> nat" where
  "leadingSpace ws s =
     (case find (\<lambda>p. p \<noteq> [] \<and> take (length p) s = p) ws of
        None \<Rightarrow> 0
      | Some p \<Rightarrow> length p)"

function dropSpaces :: "string list \<Rightarrow> string \<Rightarrow> string" where
  "dropSpaces ws s =
     (if leadingSpace ws s = 0 then s else dropSpaces ws (drop (leadingSpace ws s) s))"
  by pat_completeness auto
termination
proof (relation "measure (\<lambda>(ws, s). length s)")
  show "wf (measure (\<lambda>(ws, s). length s))"
    by simp
next
  fix ws :: "string list" and s :: string
  assume "leadingSpace ws s \<noteq> 0"
  then obtain p where "p \<noteq> []" "take (length p) s = p"
    by (auto simp: leadingSpace_def find_Some_iff split: option.splits)
  then have "s \<noteq> []" by auto
  with \<open>leadingSpace ws s \<noteq> 0\<close>
  show "((ws, drop (leadingSpace ws s) s), (ws, s)) \<in> measure (\<lambda>(ws, s). length s)"
    by simp
qed

declare dropSpaces.simps [simp del]

definition trim :: "string \<Rightarrow> string" where
  "trim s = rev (dropSpaces (map rev whiteSpace) (rev (dropSpaces whiteSpace s)))"

text \<open>\<^verbatim>\<open>Array.prototype.join\<close>.\<close>

fun join :: "string \<Rightarrow> string list \<Rightarrow> string" where
  "join sep [] = []"
| "join sep [x] = x"
| "join sep (x # y # ys) = x @ sep @ join sep (y # ys)"

section \<open>The outside world\<close>

text \<open>
  The remote commerce platform, the messaging API, the clock and the record store's key
  generator are outside the program. Each is a transition on a world state \<open>'w\<close>: a
  request returns its response and the next world, so that the same request may be
  answered differently the next time. A response is what the calling method keeps of
  it: \<open>None\<close> or \<open>False\<close> stands for a transport error, a non-OK status or an error
  list in the body, all of which the method turns into that value.
\<close>

record ShopifyCart =
  sc_id :: string
  sc_lines :: "ShopifyCartItem list"
  sc_buyerEmail :: "string option"
  sc_buyerPhone :: "string option"
  sc_totalAmount :: "string option"
  sc_discountCodes :: "string list"

text \<open>A line item of a remote checkout; \<open>variant_id\<close> is \<^verbatim>\<open>item.variant_id.toString()\<close>,
  or \<open>None\<close> when the remote value is \<^verbatim>\<open>null\<close> (then \<^verbatim>\<open>toString\<close> raises).\<close>

record ShopifyLineItem =
  variant_id :: "string option"
  li_quantity :: int

record ShopifyCustomer =
  first_name :: "string option"
  last_name :: "string option"

text \<open>A remote abandoned checkout; \<open>checkout_id\<close> is \<^verbatim>\<open>checkout.id.toString()\<close>.\<close>

record ShopifyCheckout =
  checkout_id :: string
  created_at :: int
  updated_at :: int
  customer :: "ShopifyCustomer option"
  email :: "string option"
  phone :: "string option"
  line_items :: "ShopifyLineItem list"

record 'w Env =
  clock :: "'w \<Rightarrow> int \<times> 'w"
  newId :: "'w \<Rightarrow> string \<times> 'w"
  cartCreate :: "string option \<Rightarrow> string option \<Rightarrow> ShopifyCartItem list \<Rightarrow>
                 (string option \<times> string option) option \<Rightarrow> 'w \<Rightarrow> string option \<times> 'w"
  cartLinesUpdate :: "string option \<Rightarrow> string option \<Rightarrow> string \<Rightarrow> ShopifyCartItem list \<Rightarrow>
                      'w \<Rightarrow> bool \<times> 'w"
  cartQuery :: "string option \<Rightarrow> string option \<Rightarrow> string \<Rightarrow> 'w \<Rightarrow> ShopifyCart option \<times> 'w"
  checkoutUrlQuery :: "string option \<Rightarrow> string option \<Rightarrow> string \<Rightarrow> 'w \<Rightarrow> string option \<times> 'w"
  checkoutsQuery :: "string option \<Rightarrow> string option \<Rightarrow> 'w \<Rightarrow> ShopifyCheckout list \<times> 'w"
  whatsappSend :: "string \<Rightarrow> string \<Rightarrow> string \<Rightarrow> string \<Rightarrow> 'w \<Rightarrow> bool \<times> 'w"
  exponentNotation :: "rat \<Rightarrow> string"

section \<open>Recovery statistics\<close>

text \<open>The five counts are numbers of rows, exact as doubles (a count is below \<open>2 ^ 53\<close>);
  the rate and the revenue are computed in doubles.\<close>

record RecoveryStats =
  stats_abandoned :: nat
  stats_notified :: nat
  stats_recovered :: nat
  stats_lost :: nat
  stats_recoveryRate :: jsnum
  stats_revenue :: jsnum

definition count_status :: "CartSyncService \<Rightarrow> Database \<Rightarrow> RecoveryStatus \<Rightarrow> nat" where
  "count_status svc db st =
     cart_count db (\<lambda>c. storeId c = svc_storeId svc \<and> recoveryStatus c = st)"

definition getRecoveryStats :: "CartSyncService \<Rightarrow> Database \<Rightarrow> RecoveryStats" where
  "getRecoveryStats svc db =
     (let abandoned = count_status svc db ABANDONED;
          notifiedFirst = count_status svc db NOTIFIED_FIRST;
          notifiedFinal = count_status svc db NOTIFIED_FINAL;
          recovered = count_status svc db RECOVERED;
          lost = count_status svc db LOST;
          notified = notifiedFirst + notifiedFinal;
          recoveryRate = (if notified > 0
                          then jsmul (jsdiv (Fin (of_nat recovered)) (Fin (of_nat notified)))
                                 (Fin 100)
                          else Fin 0);
          recoveredCarts = cart_findMany db
            (\<lambda>c. storeId c = svc_storeId svc \<and> recoveryStatus c = RECOVERED);
          revenue = foldl (\<lambda>sum c.
              jsadd sum (case discountAmount c of
                           None \<Rightarrow> Fin (total c)
                         | Some d \<Rightarrow> if d \<noteq> 0 then jssub (Fin (total c)) (Fin d)
                                       else Fin (total c))) (Fin 0) recoveredCarts
      in \<lparr>stats_abandoned = abandoned, stats_notified = notified, stats_recovered = recovered,
          stats_lost = lost, stats_recoveryRate = recoveryRate, stats_revenue = revenue\<rparr>)"

section \<open>The methods of CartSyncService\<close>

text \<open>
  Every method takes the record store and the world and returns its result with both.
  A method's \<^verbatim>\<open>try\<close>/\<^verbatim>\<open>catch\<close> turns an exception of the record store into the
  method's failure value.
\<close>

fun mapMetastoreItemsToShopify ::
  "CartSyncService \<Rightarrow> Database \<Rightarrow> MetastoreCartItem list \<Rightarrow> ShopifyCartItem list" where
  "mapMetastoreItemsToShopify svc db [] = []"
| "mapMetastoreItemsToShopify svc db (item # rest) =
     (case productMapping_findFirst db
             (\<lambda>m. metastoreProductId m = item_id item \<and> pm_storeId m = svc_storeId svc) of
        None \<Rightarrow> mapMetastoreItemsToShopify svc db rest
      | Some productMapping \<Rightarrow>
          \<lparr>merchandiseId = shopifyVariantId productMapping, line_quantity = quantity item\<rparr>
            # mapMetastoreItemsToShopify svc db rest)"

definition createShopifyCart ::
  "'w Env \<Rightarrow> CartSyncService \<Rightarrow> Database \<Rightarrow> MetastoreCartItem list \<Rightarrow>
   (string option \<times> string option) option \<Rightarrow> 'w \<Rightarrow> string option \<times> 'w" where
  "createShopifyCart env svc db its customerInfo w =
     (let shopifyItems = mapMetastoreItemsToShopify svc db its
      in cartCreate env (svc_shopifyStoreUrl svc) (svc_shopifyAccessToken svc)
           shopifyItems customerInfo w)"

definition updateShopifyCart ::
  "'w Env \<Rightarrow> CartSyncService \<Rightarrow> Database \<Rightarrow> string \<Rightarrow> MetastoreCartItem list \<Rightarrow>
   'w \<Rightarrow> bool \<times> 'w" where
  "updateShopifyCart env svc db shopifyCartId' its w =
     (let shopifyItems = mapMetastoreItemsToShopify svc db its
      in cartLinesUpdate env (svc_shopifyStoreUrl svc) (svc_shopifyAccessToken svc)
           shopifyCartId' shopifyItems w)"

definition getShopifyCart ::
  "'w Env \<Rightarrow> CartSyncService \<Rightarrow> string \<Rightarrow> 'w \<Rightarrow> ShopifyCart option \<times> 'w" where
  "getShopifyCart env svc shopifyCartId' w =
     cartQuery env (svc_shopifyStoreUrl svc) (svc_shopifyAccessToken svc) shopifyCartId' w"

text \<open>\<^verbatim>\<open>return data.data?.cart?.checkoutUrl || null\<close>: an empty URL is \<^verbatim>\<open>null\<close>.\<close>

definition getShopifyCheckoutUrl ::
  "'w Env \<Rightarrow> CartSyncService \<Rightarrow> string \<Rightarrow> 'w \<Rightarrow> string option \<times> 'w" where
  "getShopifyCheckoutUrl env svc shopifyCartId' w =
     (let (url, w1) = checkoutUrlQuery env (svc_shopifyStoreUrl svc)
                        (svc_shopifyAccessToken svc) shopifyCartId' w
      in (or_undefined url, w1))"

definition syncCartToShopify ::
  "'w Env \<Rightarrow> CartSyncService \<Rightarrow> string \<Rightarrow> Database \<Rightarrow> 'w \<Rightarrow>
   string option \<times> Database \<times> 'w" where
  "syncCartToShopify env svc cartId db w =
     (case cart_findUnique db cartId of
        None \<Rightarrow> (None, db, w)
      | Some cart \<Rightarrow>
          (let (updated, w1) =
                 (case shopifyCartId cart of
                    None \<Rightarrow> (False, w)
                  | Some sid \<Rightarrow>
                      if sid \<noteq> [] then updateShopifyCart env svc db sid (items cart) w
                      else (False, w))
           in if updated then (shopifyCartId cart, db, w1)
              else
                (let customerInfo = (or_undefined (customerEmail cart),
                                     or_undefined (customerPhone cart));
                     (newCartId, w2) =
                        createShopifyCart env svc db (items cart) (Some customerInfo) w1
                 in if truthy newCartId
                    then (case cart_update db cartId (\<lambda>c. c\<lparr>shopifyCartId := newCartId\<rparr>) of
                            None \<Rightarrow> (None, db, w2)
                          | Some db' \<Rightarrow> (newCartId, db', w2))
                    else (newCartId, db, w2))))"

definition getAbandonedCarts ::
  "'w Env \<Rightarrow> CartSyncService \<Rightarrow> 'w \<Rightarrow> ShopifyCheckout list \<times> 'w" where
  "getAbandonedCarts env svc w =
     checkoutsQuery env (svc_shopifyStoreUrl svc) (svc_shopifyAccessToken svc) w"

text \<open>
  The loop of \<^verbatim>\<open>mapShopifyItemsToMetastore\<close> with the array it pushes to. A line item
  without a variant id makes \<^verbatim>\<open>item.variant_id.toString()\<close> raise (\<open>None\<close>); the
  method's \<^verbatim>\<open>catch\<close> then returns the empty list.
\<close>

fun mapShopifyItems_loop ::
  "CartSyncService \<Rightarrow> Database \<Rightarrow> ShopifyLineItem list \<Rightarrow> MetastoreCartItem list \<Rightarrow>
   MetastoreCartItem list option" where
  "mapShopifyItems_loop svc db [] cartItems = Some cartItems"
| "mapShopifyItems_loop svc db (item # rest) cartItems =
     (case variant_id item of
        None \<Rightarrow> None
      | Some vid \<Rightarrow>
          (case productMapping_findFirst db
                  (\<lambda>m. shopifyVariantId m = vid \<and> pm_storeId m = svc_storeId svc) of
             None \<Rightarrow> mapShopifyItems_loop svc db rest cartItems
           | Some productMapping \<Rightarrow>
               (case product_findUnique db (metastoreProductId productMapping) of
                  None \<Rightarrow> mapShopifyItems_loop svc db rest cartItems
                | Some product \<Rightarrow>
                    mapShopifyItems_loop svc db rest
                      (cartItems @
                        [\<lparr>item_id = product_id product, item_name = product_name product,
                          price = product_price product, quantity = li_quantity item,
                          image = (case images product of
                                     [] \<Rightarrow> None
                                   | x # _ \<Rightarrow> or_undefined (Some x))\<rparr>]))))"

definition mapShopifyItemsToMetastore ::
  "CartSyncService \<Rightarrow> Database \<Rightarrow> ShopifyLineItem list \<Rightarrow> MetastoreCartItem list" where
  "mapShopifyItemsToMetastore svc db lineItems =
     (case mapShopifyItems_loop svc db lineItems [] of
        None \<Rightarrow> []
      | Some cartItems \<Rightarrow> cartItems)"

text \<open>\<^verbatim>\<open>cartItems.reduce((sum, item) => sum + item.price * item.quantity, 0)\<close>.\<close>

definition cartTotal :: "MetastoreCartItem list \<Rightarrow> jsnum" where
  "cartTotal cartItems =
     foldl (\<lambda>sum item. jsadd sum (jsmul (Fin (price item)) (Fin (of_int (quantity item)))))
       (Fin 0) cartItems"

definition checkoutCustomerName :: "ShopifyCheckout \<Rightarrow> string option" where
  "checkoutCustomerName checkout =
     (case customer checkout of
        None \<Rightarrow> None
      | Some cu \<Rightarrow>
          (case first_name cu of
             None \<Rightarrow> None
           | Some first \<Rightarrow>
               if first = [] then None
               else Some (trim (first @ '' '' @
                      (case last_name cu of None \<Rightarrow> [] | Some lastName \<Rightarrow> lastName)))))"

text \<open>
  The body of the loop of \<^verbatim>\<open>importAbandonedCarts\<close> on one remote checkout: the count
  so far, the record store and the world go in and come out. The count is \<open>None\<close>
  when \<^verbatim>\<open>prisma.cart.create\<close> raises, which leaves the loop: when the key is taken,
  and when the total is not finite, which a number column does not take.
\<close>

definition importCheckout ::
  "'w Env \<Rightarrow> CartSyncService \<Rightarrow> ShopifyCheckout \<Rightarrow> nat \<Rightarrow> Database \<Rightarrow> 'w \<Rightarrow>
   nat option \<times> Database \<times> 'w" where
  "importCheckout env svc checkout importedCount db w =
     (case cart_findFirst db
             (\<lambda>c. shopifyCartId c = Some (checkout_id checkout) \<and> storeId c = svc_storeId svc) of
        Some existingCart \<Rightarrow> (Some importedCount, db, w)
      | None \<Rightarrow>
          (let cartItems = mapShopifyItemsToMetastore svc db (line_items checkout)
           in if length cartItems = 0 then (Some importedCount, db, w)
              else
                (case cartTotal cartItems of
                   Fin total' \<Rightarrow>
                     (let (newCartId, w1) = newId env w
                      in (case cart_create db
                             \<lparr>cart_id = newCartId,
                              storeId = svc_storeId svc,
                              customerName = checkoutCustomerName checkout,
                              customerEmail = email checkout,
                              customerPhone = phone checkout,
                              items = cartItems,
                              total = total',
                              updatedAt = updated_at checkout,
                              abandonedAt = Some (created_at checkout),
                              recoveryStatus = ABANDONED,
                              lastNotifiedAt = None,
                              recoveredAt = None,
                              discountCode = None,
                              discountAmount = None,
                              shopifyCartId = Some (checkout_id checkout)\<rparr> of
                            None \<Rightarrow> (None, db, w1)
                          | Some db' \<Rightarrow> (Some (importedCount + 1), db', w1)))
                 | _ \<Rightarrow> (None, db, w))))"

text \<open>The loop itself. When the body raises, the record store keeps what the earlier
  rounds created.\<close>

fun importCheckouts ::
  "'w Env \<Rightarrow> CartSyncService \<Rightarrow> ShopifyCheckout list \<Rightarrow> nat \<Rightarrow> Database \<Rightarrow> 'w \<Rightarrow>
   nat option \<times> Database \<times> 'w" where
  "importCheckouts env svc [] importedCount db w = (Some importedCount, db, w)"
| "importCheckouts env svc (checkout # rest) importedCount db w =
     (case importCheckout env svc checkout importedCount db w of
        (None, db', w') \<Rightarrow> (None, db', w')
      | (Some importedCount', db', w') \<Rightarrow> importCheckouts env svc rest importedCount' db' w')"

definition importAbandonedCarts ::
  "'w Env \<Rightarrow> CartSyncService \<Rightarrow> Database \<Rightarrow> 'w \<Rightarrow> nat \<times> Database \<times> 'w" where
  "importAbandonedCarts env svc db w =
     (let (abandonedCheckouts, w1) = getAbandonedCarts env svc w
      in (case importCheckouts env svc abandonedCheckouts 0 db w1 of
            (None, db', w') \<Rightarrow> (0, db', w')
          | (Some importedCount, db', w') \<Rightarrow> (importedCount, db', w')))"

definition getCartRecoveryUrl ::
  "'w Env \<Rightarrow> CartSyncService \<Rightarrow> string \<Rightarrow> Database \<Rightarrow> 'w \<Rightarrow>
   string option \<times> Database \<times> 'w" where
  "getCartRecoveryUrl env svc cartId db w =
     (case cart_findUnique db cartId of
        None \<Rightarrow> (None, db, w)
      | Some cart \<Rightarrow>
          (case shopifyCartId cart of
             None \<Rightarrow> (None, db, w)
           | Some sid \<Rightarrow>
               if sid = [] then (None, db, w)
               else
                 (let (synced, db1, w1) = syncCartToShopify env svc cartId db w;
                      (shopifyCart, w2) = getShopifyCart env svc sid w1
                  in (case shopifyCart of
                        None \<Rightarrow> (None, db1, w2)
                      | Some _ \<Rightarrow>
                          (let (checkoutUrl, w3) = getShopifyCheckoutUrl env svc sid w2
                           in (case (discountCode cart, checkoutUrl) of
                                 (Some code, Some url) \<Rightarrow>
                                   if code \<noteq> [] \<and> url \<noteq> []
                                   then (Some (url @ ''&discount='' @ code), db1, w3)
                                   else (checkoutUrl, db1, w3)
                               | _ \<Rightarrow> (checkoutUrl, db1, w3)))))))"

text \<open>The three non-ASCII marks of the message template, as the UTF-8 bytes that the
  source file holds for them: the mark before an item, the one after the greeting and
  the one after the offer.\<close>

definition bullet :: string where
  "bullet = [CHR 0xC3, CHR 0xA2, CHR 0xE2, CHR 0x82, CHR 0xAC, CHR 0xC2, CHR 0xA2]"

definition waving_hand :: string where
  "waving_hand = [CHR 0xC3, CHR 0xB0, CHR 0xC5, CHR 0xB8, CHR 0xE2, CHR 0x80, CHR 0x98,
                  CHR 0xE2, CHR 0x80, CHR 0xB9]"

definition party_popper :: string where
  "party_popper = [CHR 0xC3, CHR 0xB0, CHR 0xC5, CHR 0xB8, CHR 0xC5, CHR 0xBD, CHR 0xE2,
                   CHR 0x80, CHR 0xB0]"

definition newline :: string where
  "newline = [CHR 0x0A]"

text \<open>The text between \<^verbatim>\<open>for\<close> and \<^verbatim>\<open>% off!\<close>:
  \<^verbatim>\<open>cart.discountAmount ? (cart.discountAmount/cart.total*100).toFixed(0) : ""\<close>.\<close>

definition discountPercent :: "(rat \<Rightarrow> string) \<Rightarrow> Cart \<Rightarrow> string" where
  "discountPercent expo cart =
     (case discountAmount cart of
        None \<Rightarrow> []
      | Some d \<Rightarrow>
          if d \<noteq> 0
          then toFixed expo (jsmul (jsdiv (Fin d) (Fin (total cart))) (Fin 100)) 0
          else [])"

definition itemsSummary :: "(rat \<Rightarrow> string) \<Rightarrow> MetastoreCartItem list \<Rightarrow> string" where
  "itemsSummary expo its =
     join newline
       (map (\<lambda>item. bullet @ '' '' @ item_name item @ '' ('' @
                     intToString expo (quantity item) @ ''x): $'' @
                     toFixed expo (Fin (price item)) 2) its)"

definition recoveryMessage :: "(rat \<Rightarrow> string) \<Rightarrow> Cart \<Rightarrow> Store \<Rightarrow> string \<Rightarrow> string" where
  "recoveryMessage expo cart store recoveryUrl =
     ''Hi'' @
     (case customerName cart of
        None \<Rightarrow> []
      | Some n \<Rightarrow> if n \<noteq> [] then '' '' @ n else []) @
     ''! '' @ waving_hand @ newline @ newline @
     ''We noticed you left some items in your cart at '' @ store_name store @ '':'' @
     newline @ newline @ itemsSummary expo (items cart) @ newline @ newline @
     ''Total: $'' @ toFixed expo (Fin (total cart)) 2 @ newline @ newline @
     (case discountCode cart of
        None \<Rightarrow> ''Would you like to complete your purchase?''
      | Some code \<Rightarrow>
          if code \<noteq> []
          then ''Use code '' @ code @ '' for '' @ discountPercent expo cart @ ''% off! '' @
               party_popper
          else ''Would you like to complete your purchase?'') @
     newline @ newline @ ''Checkout now: '' @ recoveryUrl"

text \<open>
  \<^verbatim>\<open>sendCartRecoveryMessage\<close>. The cart is read with its store; a cart whose store row
  is missing makes \<^verbatim>\<open>cart.store.whatsappPhoneNumberId\<close> raise, which the method's
  \<^verbatim>\<open>catch\<close> turns into \<^verbatim>\<open>false\<close>. The new status is computed from the cart as it was
  read at the start.
\<close>

definition sendCartRecoveryMessage ::
  "'w Env \<Rightarrow> CartSyncService \<Rightarrow> string \<Rightarrow> Database \<Rightarrow> 'w \<Rightarrow> bool \<times> Database \<times> 'w" where
  "sendCartRecoveryMessage env svc cartId db w =
     (case cart_findUnique db cartId of
        None \<Rightarrow> (False, db, w)
      | Some cart \<Rightarrow>
          (case store_findUnique db (storeId cart) of
             None \<Rightarrow> (False, db, w)
           | Some store \<Rightarrow>
               (case (customerPhone cart, whatsappPhoneNumberId store, whatsappAccessToken store) of
                  (Some to, Some phoneNumberId, Some token) \<Rightarrow>
                    if to = [] \<or> phoneNumberId = [] \<or> token = [] then (False, db, w)
                    else
                      (let (recoveryUrl, db1, w1) = getCartRecoveryUrl env svc cartId db w
                       in (case recoveryUrl of
                             None \<Rightarrow> (False, db1, w1)
                           | Some url \<Rightarrow>
                               if url = [] then (False, db1, w1)
                               else
                                 (let message = recoveryMessage (exponentNotation env) cart store url;
                                      (ok, w2) = whatsappSend env phoneNumberId token to message w1
                                  in if \<not> ok then (False, db1, w2)
                                     else
                                       (let (now, w3) = clock env w2
                                        in (case cart_update db1 cartId
                                                (\<lambda>c. c\<lparr>lastNotifiedAt := Some now,
                                                        recoveryStatus :=
                                                          (if recoveryStatus cart = ABANDONED
                                                           then NOTIFIED_FIRST
                                                           else NOTIFIED_FINAL)\<rparr>) of
                                              None \<Rightarrow> (False, db1, w3)
                                            | Some db2 \<Rightarrow> (True, db2, w3))))))
                | _ \<Rightarrow> (False, db, w))))"

definition processRecovery ::
  "'w Env \<Rightarrow> CartSyncService \<Rightarrow> string \<Rightarrow> Database \<Rightarrow> 'w \<Rightarrow> bool \<times> Database \<times> 'w" where
  "processRecovery env svc cartId db w =
     (let (now, w1) = clock env w
      in (case cart_update db cartId
              (\<lambda>c. c\<lparr>recoveryStatus := RECOVERED, recoveredAt := Some now\<rparr>) of
            None \<Rightarrow> (False, db, w1)
          | Some db' \<Rightarrow> (True, db', w1)))"

section \<open>The manual recovery endpoint\<close>

text \<open>
  \<^verbatim>\<open>GET\<close> of the recovery route (\<^verbatim>\<open>src/unnamed/part_000\<close>). The two query parameters
  are \<open>None\<close> when absent. The response is an error with its HTTP status and message,
  or a redirect.
\<close>

datatype Response = JsonError nat string | Redirect string

definition recovery_GET ::
  "'w Env \<Rightarrow> string option \<Rightarrow> string option \<Rightarrow> Database \<Rightarrow> 'w \<Rightarrow> Response \<times> Database \<times> 'w" where
  "recovery_GET env cartIdParam codeParam db w =
     (case cartIdParam of
        None \<Rightarrow> (JsonError 400 ''Cart ID is required'', db, w)
      | Some cartId \<Rightarrow>
          if cartId = [] then (JsonError 400 ''Cart ID is required'', db, w)
          else
            (case cart_findUnique db cartId of
               None \<Rightarrow> (JsonError 404 ''Cart not found'', db, w)
             | Some cart \<Rightarrow>
                 if truthy codeParam \<and> truthy (discountCode cart) \<and> codeParam \<noteq> discountCode cart
                 then (JsonError 400 ''Invalid discount code'', db, w)
                 else
                   (let (initialized, cartSyncService) =
                          initialize (new_CartSyncService (storeId cart)) db
                    in if \<not> initialized
                       then (JsonError 500 ''Failed to initialize cart sync service'', db, w)
                       else
                         (let (recovered, db1, w1) = processRecovery env cartSyncService cartId db w
                          in if \<not> recovered
                             then (JsonError 500 ''Failed to process recovery'', db1, w1)
                             else
                               (let (recoveryUrl, db2, w2) =
                                      getCartRecoveryUrl env cartSyncService cartId db1 w1
                                in (case recoveryUrl of
                                      None \<Rightarrow> (JsonError 500 ''Failed to get recovery URL'', db2, w2)
                                    | Some url \<Rightarrow>
                                        if url = []
                                        then (JsonError 500 ''Failed to get recovery URL'', db2, w2)
                                        else (Redirect url, db2, w2)))))))"

section \<open>The scan endpoint\<close>

text \<open>
  \<^verbatim>\<open>GET\<close> of \<^verbatim>\<open>src/app/api/cron/cart-recovery/route.ts\<close>. The three \<^verbatim>\<open>where\<close> clauses
  are predicates on a cart, given the store and the value of \<^verbatim>\<open>Date.now()\<close> at the
  query; \<^verbatim>\<open>lt\<close> on a nullable column does not match \<^verbatim>\<open>null\<close>.
\<close>

record ScanResults =
  r_stores :: nat
  r_imported :: nat
  r_abandoned :: nat
  r_notified :: nat
  r_followUp :: nat
  r_recovered :: nat
  r_lost :: nat
  r_errors :: nat

definition abandonedWhere :: "string \<Rightarrow> int \<Rightarrow> Cart \<Rightarrow> bool" where
  "abandonedWhere sid now c =
     (storeId c = sid \<and> updatedAt c < now - 60 * 60 * 1000 \<and> recoveryStatus c = NONE \<and>
      customerPhone c \<noteq> None)"

definition followUpWhere :: "string \<Rightarrow> int \<Rightarrow> Cart \<Rightarrow> bool" where
  "followUpWhere sid now c =
     (storeId c = sid \<and> recoveryStatus c = NOTIFIED_FIRST \<and>
      (case lastNotifiedAt c of None \<Rightarrow> False | Some t \<Rightarrow> t < now - 24 * 60 * 60 * 1000) \<and>
      customerPhone c \<noteq> None)"

definition lostWhere :: "string \<Rightarrow> int \<Rightarrow> Cart \<Rightarrow> bool" where
  "lostWhere sid now c =
     (storeId c = sid \<and> recoveryStatus c = NOTIFIED_FINAL \<and>
      (case lastNotifiedAt c of None \<Rightarrow> False | Some t \<Rightarrow> t < now - 48 * 60 * 60 * 1000))"

text \<open>The body of the loop over the abandoned carts; a raising update is counted as an
  error and the loop goes on.\<close>

definition abandonedCartStep ::
  "'w Env \<Rightarrow> CartSyncService \<Rightarrow> Cart \<Rightarrow> ScanResults \<times> Database \<times> 'w \<Rightarrow>
   ScanResults \<times> Database \<times> 'w" where
  "abandonedCartStep env svc cart s =
     (case s of (results, db, w) \<Rightarrow>
        (let (now, w1) = clock env w
         in (case cart_update db (cart_id cart)
                 (\<lambda>c. c\<lparr>abandonedAt := Some now, recoveryStatus := ABANDONED\<rparr>) of
               None \<Rightarrow> (results\<lparr>r_errors := r_errors results + 1\<rparr>, db, w1)
             | Some db1 \<Rightarrow>
                 if truthy (customerPhone cart)
                 then (let (sent, db2, w2) = sendCartRecoveryMessage env svc (cart_id cart) db1 w1
                       in (if sent then results\<lparr>r_notified := r_notified results + 1\<rparr>
                           else results, db2, w2))
                 else (results, db1, w1))))"

text \<open>The body of the loop over the follow-up carts.\<close>

definition followUpCartStep ::
  "'w Env \<Rightarrow> CartSyncService \<Rightarrow> Cart \<Rightarrow> ScanResults \<times> Database \<times> 'w \<Rightarrow>
   ScanResults \<times> Database \<times> 'w" where
  "followUpCartStep env svc cart s =
     (case s of (results, db, w) \<Rightarrow>
        if truthy (customerPhone cart)
        then (let (sent, db1, w1) = sendCartRecoveryMessage env svc (cart_id cart) db w
              in (if sent then results\<lparr>r_notified := r_notified results + 1\<rparr>
                  else results, db1, w1))
        else (results, db, w))"

text \<open>The fourth phase: one \<^verbatim>\<open>updateMany\<close>.\<close>

definition markLostCarts :: "string \<Rightarrow> int \<Rightarrow> Database \<Rightarrow> nat \<times> Database" where
  "markLostCarts sid now db =
     cart_updateMany db (lostWhere sid now) (\<lambda>c. c\<lparr>recoveryStatus := LOST\<rparr>)"

text \<open>The body of the loop over the stores.\<close>

definition processStore ::
  "'w Env \<Rightarrow> string \<Rightarrow> ScanResults \<times> Database \<times> 'w \<Rightarrow> ScanResults \<times> Database \<times> 'w" where
  "processStore env sid s =
     (case s of (results, db, w) \<Rightarrow>
        (let (initialized, cartSyncService) = initialize (new_CartSyncService sid) db
         in if \<not> initialized then (results\<lparr>r_errors := r_errors results + 1\<rparr>, db, w)
            else
              (let (importedCount, db1, w1) = importAbandonedCarts env cartSyncService db w;
                   results1 = results\<lparr>r_imported := r_imported results + importedCount\<rparr>;
                   (now2, w2) = clock env w1;
                   abandonedCarts = cart_findMany db1 (abandonedWhere sid now2);
                   results2 = results1\<lparr>r_abandoned := r_abandoned results1 + length abandonedCarts\<rparr>;
                   (results3, db3, w3) =
                      fold (abandonedCartStep env cartSyncService) abandonedCarts (results2, db1, w2);
                   (now3, w4) = clock env w3;
                   followUpCarts = cart_findMany db3 (followUpWhere sid now3);
                   results4 = results3\<lparr>r_followUp := r_followUp results3 + length followUpCarts\<rparr>;
                   (results5, db5, w5) =
                      fold (followUpCartStep env cartSyncService) followUpCarts (results4, db3, w4);
                   (now4, w6) = clock env w5;
                   (lostCount, db6) = markLostCarts sid now4 db5;
                   results6 = results5\<lparr>r_lost := r_lost results5 + lostCount\<rparr>;
                   stats = getRecoveryStats cartSyncService db6
               in (results6\<lparr>r_recovered := r_recovered results6 + stats_recovered stats\<rparr>,
                   db6, w6))))"

definition cron_GET :: "'w Env \<Rightarrow> Database \<Rightarrow> 'w \<Rightarrow> ScanResults \<times> Database \<times> 'w" where
  "cron_GET env db w =
     (let (startTime, w0) = clock env w;
          activeStores = filter (\<lambda>s. isActive s \<and> shopifyAccessToken s \<noteq> None \<and>
                                       shopifyStoreUrl s \<noteq> None) (stores db);
          results = \<lparr>r_stores = length activeStores, r_imported = 0, r_abandoned = 0,
                     r_notified = 0, r_followUp = 0, r_recovered = 0, r_lost = 0, r_errors = 0\<rparr>;
          (results', db', w') =
             fold (\<lambda>store. processStore env (store_id store)) activeStores (results, db, w0);
          (endTime, w1) = clock env w';
          (timestamp, w2) = clock env w1
      in (results', db', w2))"

section \<open>Relations between two states of the record store\<close>

text \<open>\<open>remote_id_only db db'\<close>: the two stores hold the same rows, except for the remote
  cart ids of the carts.\<close>

definition remote_id_only :: "Database \<Rightarrow> Database \<Rightarrow> bool" where
  "remote_id_only db db' =
     (stores db' = stores db \<and> productMappings db' = productMappings db \<and>
      products db' = products db \<and>
      list_all2 (\<lambda>c c'. c' = c\<lparr>shopifyCartId := shopifyCartId c'\<rparr>) (carts db) (carts db'))"

text \<open>\<open>remote_key sid rid\<close>: the key on which the import looks for an earlier import,
  the store and the remote cart id.\<close>

definition remote_key :: "string \<Rightarrow> string \<Rightarrow> Cart \<Rightarrow> bool" where
  "remote_key sid rid c = (shopifyCartId c = Some rid \<and> storeId c = sid)"

text \<open>\<open>others_unchanged S db db'\<close>: the carts of the two stores are the same rows, in
  the same order and with the same keys, and a row whose key is not in \<open>S\<close> has not
  changed.\<close>

definition others_unchanged :: "string set \<Rightarrow> Database \<Rightarrow> Database \<Rightarrow> bool" where
  "others_unchanged S db db' =
     list_all2 (\<lambda>c c'. cart_id c' = cart_id c \<and> (cart_id c \<notin> S \<longrightarrow> c' = c))
       (carts db) (carts db')"

text \<open>\<open>resolveLineItem\<close>: the local item that one remote line item stands for, when its
  variant is mapped for the store and the mapped product exists.\<close>

definition resolveLineItem ::
  "CartSyncService \<Rightarrow> Database \<Rightarrow> ShopifyLineItem \<Rightarrow> MetastoreCartItem option" where
  "resolveLineItem svc db item =
     (case variant_id item of
        None \<Rightarrow> None
      | Some vid \<Rightarrow>
          (case productMapping_findFirst db
                  (\<lambda>m. shopifyVariantId m = vid \<and> pm_storeId m = svc_storeId svc) of
             None \<Rightarrow> None
           | Some productMapping \<Rightarrow>
               (case product_findUnique db (metastoreProductId productMapping) of
                  None \<Rightarrow> None
                | Some product \<Rightarrow>
                    Some \<lparr>item_id = product_id product, item_name = product_name product,
                          price = product_price product, quantity = li_quantity item,
                          image = (case images product of
                                     [] \<Rightarrow> None
                                   | x # _ \<Rightarrow> or_undefined (Some x))\<rparr>)))"

section \<open>Concrete instances\<close>

text \<open>
  A small store and a world in which every request succeeds; the world is a counter
  that every request advances and that the clock reads in seconds.
\<close>

definition mk_cart :: "string \<Rightarrow> string \<Rightarrow> RecoveryStatus \<Rightarrow> Cart" where
  "mk_cart cid sid st =
     \<lparr>cart_id = cid, storeId = sid, customerName = Some ''Ada'', customerEmail = None,
      customerPhone = Some ''15550100'',
      items = [\<lparr>item_id = ''p1'', item_name = ''Mug'', price = 25 / 2, quantity = 2,
                image = None\<rparr>],
      total = 25, updatedAt = 0, abandonedAt = None, recoveryStatus = st,
      lastNotifiedAt = None, recoveredAt = None, discountCode = None, discountAmount = None,
      shopifyCartId = Some ''gid1''\<rparr>"

definition mk_store :: "string \<Rightarrow> Store" where
  "mk_store sid =
     \<lparr>store_id = sid, store_name = ''Corner Shop'', isActive = True,
      shopifyAccessToken = Some ''shpat'', shopifyStoreUrl = Some ''https://shop.example'',
      whatsappPhoneNumberId = Some ''1001'', whatsappAccessToken = Some ''watok''\<rparr>"

definition mk_db :: "Cart list \<Rightarrow> Store list \<Rightarrow> Database" where
  "mk_db cs ss =
     \<lparr>carts = cs, stores = ss,
      productMappings = [\<lparr>pm_storeId = ''s1'', metastoreProductId = ''p1'',
                          shopifyVariantId = ''v1''\<rparr>],
      products = [\<lparr>product_id = ''p1'', product_name = ''Mug'', product_price = 25 / 2,
                   images = []\<rparr>]\<rparr>"

definition demo_env :: "nat Env" where
  "demo_env =
     \<lparr>clock = (\<lambda>w. (int w * 1000, Suc w)),
      newId = (\<lambda>w. (''new'' @ natToString w, Suc w)),
      cartCreate = (\<lambda>url token ls buyer w. (Some ''gid2'', Suc w)),
      cartLinesUpdate = (\<lambda>url token sid ls w. (True, Suc w)),
      cartQuery = (\<lambda>url token sid w.
         (Some \<lparr>sc_id = sid, sc_lines = [], sc_buyerEmail = None, sc_buyerPhone = None,
                sc_totalAmount = None, sc_discountCodes = []\<rparr>, Suc w)),
      checkoutUrlQuery = (\<lambda>url token sid w. (Some (''https://shop.example/cart/c?key='' @ sid), Suc w)),
      checkoutsQuery = (\<lambda>url token w. ([], Suc w)),
      whatsappSend = (\<lambda>phoneNumberId token to body w. (True, Suc w)),
      exponentNotation = (\<lambda>x. ''1e+21'')\<rparr>"

definition s1 :: CartSyncService where
  "s1 = \<lparr>svc_storeId = ''s1'', svc_shopifyAccessToken = Some ''shpat'',
          svc_shopifyStoreUrl = Some ''https://shop.example''\<rparr>"

definition stats_db :: Database where
  "stats_db =
     mk_db [mk_cart ''c1'' ''s1'' NOTIFIED_FIRST, mk_cart ''c2'' ''s1'' NOTIFIED_FIRST,
            mk_cart ''c3'' ''s1'' NOTIFIED_FINAL, mk_cart ''c4'' ''s1'' NOTIFIED_FINAL,
            mk_cart ''c5'' ''s1'' NOTIFIED_FINAL, mk_cart ''c6'' ''s1'' RECOVERED,
            mk_cart ''c7'' ''s1'' RECOVERED, mk_cart ''c8'' ''s2'' RECOVERED]
           [mk_store ''s1'']"

definition send_db :: Database where
  "send_db =
     mk_db [mk_cart ''c1'' ''s1'' ABANDONED, mk_cart ''c2'' ''s1'' NOTIFIED_FIRST]
           [mk_store ''s1'']"

definition update_fails_env :: "nat Env" where
  "update_fails_env = demo_env\<lparr>cartLinesUpdate := (\<lambda>url token sid ls w. (False, Suc w))\<rparr>"

definition remote_cart_gone_env :: "nat Env" where
  "remote_cart_gone_env = demo_env\<lparr>cartQuery := (\<lambda>url token sid w. (None, Suc w))\<rparr>"

definition discount_db :: Database where
  "discount_db =
     mk_db [(mk_cart ''c1'' ''s1'' NOTIFIED_FIRST)\<lparr>discountCode := Some ''SAVE10'',
                                                   discountAmount := Some 5\<rparr>]
           [mk_store ''s1'']"

definition nocred_db :: Database where
  "nocred_db =
     mk_db [mk_cart ''c1'' ''s1'' ABANDONED] [(mk_store ''s1'')\<lparr>shopifyAccessToken := None\<rparr>]"

definition nowhatsapp_db :: Database where
  "nowhatsapp_db =
     mk_db [mk_cart ''c1'' ''s1'' ABANDONED] [(mk_store ''s1'')\<lparr>whatsappAccessToken := None\<rparr>]"

definition zero_results :: ScanResults where
  "zero_results =
     \<lparr>r_stores = 0, r_imported = 0, r_abandoned = 0, r_notified = 0, r_followUp = 0,
      r_recovered = 0, r_lost = 0, r_errors = 0\<rparr>"

definition two_checkouts :: "ShopifyCheckout list" where
  "two_checkouts =
     [\<lparr>checkout_id = ''901'', created_at = 5000, updated_at = 7000,
       customer = Some \<lparr>first_name = Some ''Grace'', last_name = None\<rparr>,
       email = Some ''g@example.org'', phone = Some ''15550111'',
       line_items = [\<lparr>variant_id = Some ''v1'', li_quantity = 3\<rparr>,
                     \<lparr>variant_id = Some ''v9'', li_quantity = 1\<rparr>]\<rparr>,
      \<lparr>checkout_id = ''901'', created_at = 5000, updated_at = 7000,
       customer = None, email = None, phone = None,
       line_items = [\<lparr>variant_id = Some ''v1'', li_quantity = 3\<rparr>]\<rparr>]"

definition import_db :: Database where
  "import_db = mk_db [mk_cart ''c1'' ''s1'' NONE] [mk_store ''s1'']"

definition late_env :: "nat Env" where
  "late_env = demo_env\<lparr>clock := (\<lambda>w. (1000000000 + int w * 1000, Suc w))\<rparr>"

definition lost_db :: Database where
  "lost_db =
     mk_db [(mk_cart ''c1'' ''s1'' NOTIFIED_FINAL)\<lparr>lastNotifiedAt := Some 1000\<rparr>,
            (mk_cart ''c2'' ''s1'' NOTIFIED_FINAL)
              \<lparr>lastNotifiedAt := Some (1000003000 - 48 * 60 * 60 * 1000)\<rparr>]
           [mk_store ''s1'']"

definition free_cart :: Cart where
  "free_cart =
     (mk_cart ''c1'' ''s1'' ABANDONED)
       \<lparr>items := [\<lparr>item_id = ''p2'', item_name = ''Sample'', price = 0, quantity = 1,
                   image = None\<rparr>],
        total := 0, discountCode := Some ''SAVE10'', discountAmount := Some 5\<rparr>"

definition custom_checkout :: ShopifyCheckout where
  "custom_checkout =
     \<lparr>checkout_id = ''902'', created_at = 5000, updated_at = 7000,
      customer = None, email = None, phone = Some ''15550112'',
      line_items = [\<lparr>variant_id = Some ''v1'', li_quantity = 3\<rparr>,
                    \<lparr>variant_id = None, li_quantity = 1\<rparr>]\<rparr>"

section \<open>Facts about the rounding to doubles\<close>

text \<open>
  \<open>binade\<close> is the binary exponent, and between \<open>2 ^ - 1022\<close> and \<open>2 ^ 1023\<close>
  \<open>toDouble\<close> is finite and within half a unit of the last place, a relative error of
  at most \<open>2 ^ - 53\<close>. The recovery rate, two roundings, is within \<open>2 ^ - 51\<close> of the
  exact quotient times 100.
\<close>

lemma bitlength_bounds:
  "n > 0 \<Longrightarrow> 2 ^ (bitlength n - 1) \<le> n \<and> n < 2 ^ bitlength n"
proof (induction n rule: bitlength.induct)
  case (1 n)
  show ?case
  proof (cases "n div 2 = 0")
    case True
    with "1.prems" have "n = 1" by linarith
    then show ?thesis by (simp add: bitlength.simps)
  next
    case False
    with "1.IH" "1.prems" have ih: "2 ^ (bitlength (n div 2) - 1) \<le> n div 2"
      "n div 2 < 2 ^ bitlength (n div 2)" by auto
    from False have pos: "bitlength (n div 2) > 0"
      by (subst bitlength.simps) simp
    have eq: "bitlength n = Suc (bitlength (n div 2))"
      using "1.prems" by (subst bitlength.simps) simp
    from pos have "(2::nat) ^ bitlength (n div 2) = 2 * 2 ^ (bitlength (n div 2) - 1)"
      by (cases "bitlength (n div 2)") simp_all
    with ih show ?thesis
      unfolding eq by (simp; linarith)
  qed
qed

lemma pow2_pos: "pow2 e > 0"
  by (simp add: pow2_def)

lemma pow2_Suc: "pow2 (e + 1) = 2 * pow2 e"
proof (cases "e \<ge> 0")
  case True
  then show ?thesis by (simp add: pow2_def nat_add_distrib)
next
  case False
  then have "nat (- e) = Suc (nat (- (e + 1)))" by simp
  then show ?thesis using False by (simp add: pow2_def)
qed

lemma pow2_nat: "pow2 (int n) = 2 ^ n"
  by (simp add: pow2_def)

lemma pow2_neg_nat: "pow2 (- int n) = 1 / 2 ^ n"
  by (cases n) (simp_all add: pow2_def nat_add_distrib)

lemma binade_bounds:
  assumes "x > 0"
  shows "pow2 (binade x) \<le> x \<and> x < pow2 (binade x + 1)"
proof (cases "x \<ge> 1")
  case True
  define n where "n = nat \<lfloor>x\<rfloor>"
  from True have n: "n > 0" "of_nat n \<le> x" "x < of_nat n + 1"
    unfolding n_def by (simp_all add: le_floor_iff) linarith
  from bitlength_bounds [OF n(1)] obtain k where k: "bitlength n = Suc k" "2 ^ k \<le> n" "n < 2 ^ Suc k"
    by (cases "bitlength n") auto
  have b: "binade x = int k"
    using True by (simp add: binade_def n_def [symmetric] k(1))
  have "(2::rat) ^ k \<le> of_nat n"
    using k(2) by (metis of_nat_le_iff of_nat_numeral of_nat_power)
  moreover have "of_nat n + 1 \<le> (2::rat) ^ Suc k"
  proof -
    from k(3) have "n + 1 \<le> 2 ^ Suc k" by simp
    then have "of_nat (n + 1) \<le> (of_nat (2 ^ Suc k) :: rat)" by (simp only: of_nat_le_iff)
    then show ?thesis by simp
  qed
  ultimately have "(2::rat) ^ k \<le> x" "x < 2 ^ Suc k"
    using n(2,3) by linarith+
  then show ?thesis
    by (simp add: b pow2_Suc pow2_nat)
next
  case False
  define m where "m = \<lceil>1 / x\<rceil>"
  define n where "n = nat (m - 1)"
  from False assms have inv: "1 / x > 1" by simp
  then have m2: "m \<ge> 2" unfolding m_def by (simp add: le_ceiling_iff) 
  have m: "of_int m - 1 < 1 / x" "1 / x \<le> of_int m"
    unfolding m_def by linarith+
  from m2 have n: "n > 0" "int n = m - 1" by (simp_all add: n_def)
  from bitlength_bounds [OF n(1)] obtain k where k: "bitlength n = Suc k" "2 ^ k \<le> n" "n < 2 ^ Suc k"
    by (cases "bitlength n") auto
  have b: "binade x = - int (Suc k)"
    using False by (simp add: binade_def m_def [symmetric] n_def [symmetric] k(1))
  have lo: "(2::rat) ^ k < 1 / x"
  proof -
    have "(2::rat) ^ k \<le> of_nat n"
      using k(2) by (metis of_nat_le_iff of_nat_numeral of_nat_power)
    also have "\<dots> = of_int m - 1" using n(2) by (metis of_int_diff of_int_of_nat_eq of_int_1)
    finally show ?thesis using m(1) by simp
  qed
  have hi: "1 / x \<le> (2::rat) ^ Suc k"
  proof -
    from k(3) have "n + 1 \<le> 2 ^ Suc k" by simp
    then have "of_nat (n + 1) \<le> (of_nat (2 ^ Suc k) :: rat)" by (simp only: of_nat_le_iff)
    moreover have "of_int m = (of_nat (n + 1) :: rat)"
      using n(2) by (metis add.commute diff_add_cancel of_int_of_nat_eq of_nat_Suc Suc_eq_plus1 of_int_add of_int_1)
    ultimately show ?thesis using m(2) by simp
  qed
  from hi assms have "1 / 2 ^ Suc k \<le> x"
    by (simp add: field_simps)
  moreover from lo assms have "x < 1 / 2 ^ k"
    by (simp add: field_simps)
  moreover have "pow2 (- int (Suc k) + 1) = 1 / 2 ^ k"
    using pow2_neg_nat [of k] by simp
  ultimately show ?thesis
    by (simp add: b pow2_neg_nat del: power_Suc of_nat_Suc)
qed


lemma roundHalfEven_error: "\<bar>of_int (roundHalfEven q) - q\<bar> \<le> 1 / 2"
proof -
  have "of_int \<lfloor>q\<rfloor> \<le> q" "q < of_int \<lfloor>q\<rfloor> + 1"
    by linarith+
  then show ?thesis
    by (auto simp: roundHalfEven_def Let_def)
qed

lemma pow2_powi: "pow2 e = 2 powi e"
  by (simp add: pow2_def power_int_def power_one_over [symmetric] inverse_eq_divide)

lemma pow2_less_iff: "pow2 a < pow2 b \<longleftrightarrow> a < b"
proof
  assume "pow2 a < pow2 b"
  show "a < b"
  proof (rule ccontr)
    assume "\<not> a < b"
    then have "(2::rat) powi b \<le> 2 powi a"
      by (intro power_int_increasing) simp_all
    with \<open>pow2 a < pow2 b\<close> show False by (simp add: pow2_powi)
  qed
next
  assume "a < b"
  then have "(2::rat) powi a < 2 powi b"
    by (intro power_int_strict_increasing) simp_all
  then show "pow2 a < pow2 b" by (simp add: pow2_powi)
qed

lemma pow2_diff: "pow2 (a - b) = pow2 a / pow2 b"
  by (simp add: pow2_powi power_int_diff)

lemma binade_ge:
  assumes "x \<ge> pow2 e"
  shows "binade x \<ge> e"
proof -
  from assms pow2_pos [of e] have "x > 0" by linarith
  from binade_bounds [OF this] assms have "pow2 e < pow2 (binade x + 1)" by linarith
  then show ?thesis by (simp add: pow2_less_iff)
qed

lemma binade_less:
  assumes "x > 0" and "x < pow2 e"
  shows "binade x < e"
proof -
  from binade_bounds [OF assms(1)] assms(2) have "pow2 (binade x) < pow2 e" by linarith
  then show ?thesis by (simp add: pow2_less_iff)
qed

lemma toDouble_normal:
  assumes "x \<ge> pow2 (- 1022)" and "x < pow2 1023"
  shows "\<exists>y. toDouble x = Fin y \<and> \<bar>y - x\<bar> \<le> x / 2 ^ 53"
proof -
  from assms(1) pow2_pos [of "- 1022"] have pos: "x > 0" by linarith
  define ulp where "ulp = pow2 (binade x - 52)"
  define y where "y = of_int (roundHalfEven (x / ulp)) * ulp"
  have e: "max (binade x) (- 1022) = binade x"
    using binade_ge [OF assms(1)] by simp
  have ulp_pos: "ulp > 0" by (simp add: ulp_def pow2_pos)
  have "pow2 52 = 2 ^ 52"
    by (simp add: pow2_def)
  then have "ulp = pow2 (binade x) / 2 ^ 52"
    unfolding ulp_def pow2_diff by simp
  with binade_bounds [OF pos] have ulp_le: "ulp \<le> x / 2 ^ 52"
    by (simp add: divide_right_mono)
  have "\<bar>of_int (roundHalfEven (x / ulp)) - x / ulp\<bar> * ulp \<le> 1 / 2 * ulp"
    using roundHalfEven_error [of "x / ulp"] ulp_pos by (intro mult_right_mono) simp_all
  moreover have "\<bar>of_int (roundHalfEven (x / ulp)) - x / ulp\<bar> * ulp = \<bar>y - x\<bar>"
  proof -
    have "\<bar>of_int (roundHalfEven (x / ulp)) - x / ulp\<bar> * \<bar>ulp\<bar> = \<bar>y - x\<bar>"
      unfolding abs_mult [symmetric] y_def using ulp_pos by (simp add: algebra_simps)
    with ulp_pos show ?thesis by simp
  qed
  ultimately have err: "\<bar>y - x\<bar> \<le> ulp / 2" by simp
  with ulp_le have bound: "\<bar>y - x\<bar> \<le> x / 2 ^ 53" by simp
  have small: "x / 2 ^ 53 < x"
    using pos by (simp add: field_simps)
  from bound have "y - x \<le> x / 2 ^ 53" "x - y \<le> x / 2 ^ 53"
    by linarith+
  with small have "y > 0" "y \<le> x + x / 2 ^ 53"
    by linarith+
  have "y < pow2 1024"
  proof -
    have "x + x / 2 ^ 53 \<le> 2 * x" using pos by simp
    also have "\<dots> < 2 * pow2 1023" using assms(2) by simp
    also have "\<dots> = pow2 1024" using pow2_Suc [of 1023] by simp
    finally show ?thesis using \<open>y \<le> x + x / 2 ^ 53\<close> by linarith
  qed
  from binade_less [OF \<open>y > 0\<close> this] have "\<not> binade y \<ge> 1024" by simp
  then have "toDouble x = Fin y"
    using pos by (simp add: toDouble_def Let_def e ulp_def [symmetric] y_def [symmetric])
  with bound show ?thesis by blast
qed


lemma pow2_le_iff: "pow2 a \<le> pow2 b \<longleftrightarrow> a \<le> b"
  using pow2_less_iff [of b a] by (auto simp: not_less [symmetric])

lemma toDouble_range:
  assumes "1 / 2 ^ 54 \<le> x" and "x < 2 ^ 61"
  shows "\<exists>y. toDouble x = Fin y \<and> \<bar>y - x\<bar> \<le> x / 2 ^ 53"
proof (rule toDouble_normal)
  have "pow2 (- 1022) \<le> pow2 (- 54)"
    by (simp add: pow2_le_iff)
  also have "pow2 (- 54) = 1 / 2 ^ 54"
    by (simp add: pow2_def)
  finally show "pow2 (- 1022) \<le> x"
    using assms(1) by linarith
  have "pow2 61 \<le> pow2 1023"
    by (simp add: pow2_le_iff)
  moreover have "pow2 61 = 2 ^ 61"
    by (simp add: pow2_def)
  ultimately show "x < pow2 1023"
    using assms(2) by linarith
qed

lemma recoveryRate_accuracy:
  fixes r n :: nat
  assumes "0 < n" and "n \<le> 2 ^ 53" and "r < 2 ^ 53"
  shows "\<exists>q. jsmul (jsdiv (Fin (of_nat r)) (Fin (of_nat n))) (Fin 100) = Fin q \<and>
             \<bar>q - of_nat r / of_nat n * 100\<bar> \<le> of_nat r / of_nat n * 100 / 2 ^ 51"
proof (cases "r = 0")
  case True
  with assms(1) show ?thesis by (simp add: toDouble_def)
next
  case False
  define x where "x = (of_nat r / of_nat n :: rat)"
  have n_le: "(of_nat n :: rat) \<le> 2 ^ 53"
    using assms(2) by (metis of_nat_le_iff of_nat_numeral of_nat_power)
  have r_less: "(of_nat r :: rat) < 2 ^ 53"
    using assms(3) by (metis of_nat_less_iff of_nat_numeral of_nat_power)
  have r_ge: "(of_nat r :: rat) \<ge> 1"
    using False by simp
  have n_ge: "(of_nat n :: rat) \<ge> 1"
    using assms(1) by simp
  have x_lo: "1 / 2 ^ 53 \<le> x"
  proof -
    have "1 / 2 ^ 53 \<le> 1 / (of_nat n :: rat)"
      using n_le n_ge by (intro divide_left_mono) simp_all
    also have "\<dots> \<le> x"
      unfolding x_def using r_ge n_ge by (intro divide_right_mono) simp_all
    finally show ?thesis .
  qed
  have x_hi: "x < 2 ^ 53"
  proof -
    have "x \<le> of_nat r"
      unfolding x_def using n_ge r_ge by (simp add: field_simps mult_le_cancel_left1)
    with r_less show ?thesis by linarith
  qed
  from x_lo have x_pos: "x > 0" by (simp add: less_le_trans [of 0 "1 / 2 ^ 53"])
  from toDouble_range [of x] x_lo x_hi obtain y where
    y: "toDouble x = Fin y" "\<bar>y - x\<bar> \<le> x / 2 ^ 53"
    by fastforce
  have half: "x / 2 ^ 53 \<le> x / 2"
    using x_pos by (simp add: field_simps)
  from y(2) have y_bounds: "x - x / 2 ^ 53 \<le> y" "y \<le> x + x / 2 ^ 53"
    by linarith+
  with half x_pos have y_rough: "x / 2 \<le> y" "y \<le> 2 * x"
    by linarith+
  have "1 / 2 ^ 54 \<le> y * 100"
    using x_lo y_rough(1) by simp
  moreover have "y * 100 < 2 ^ 61"
    using x_hi y_rough(2) by simp
  ultimately obtain q where
    q: "toDouble (y * 100) = Fin q" "\<bar>q - y * 100\<bar> \<le> y * 100 / 2 ^ 53"
    using toDouble_range [of "y * 100"] by blast
  define d where "d = x / 2 ^ 53"
  from y_bounds have y_d: "x - d \<le> y" "y \<le> x + d"
    by (simp_all add: d_def)
  have "y * 100 / 2 ^ 53 \<le> (x + d) * 100 / 2 ^ 53"
    using y_d(2) by (intro divide_right_mono mult_right_mono) simp_all
  with q(2) have first: "\<bar>q - y * 100\<bar> \<le> (x + d) * 100 / 2 ^ 53"
    by linarith
  have second: "\<bar>y * 100 - x * 100\<bar> \<le> d * 100"
    using y_d by linarith
  have "\<bar>q - x * 100\<bar> \<le> \<bar>q - y * 100\<bar> + \<bar>y * 100 - x * 100\<bar>"
    by linarith
  also have "\<dots> \<le> (x + d) * 100 / 2 ^ 53 + d * 100"
    using first second by linarith
  also have "\<dots> \<le> x * 100 / 2 ^ 51"
    using x_pos by (simp add: d_def field_simps)
  finally have "\<bar>q - x * 100\<bar> \<le> x * 100 / 2 ^ 51" .
  moreover have "jsmul (jsdiv (Fin (of_nat r)) (Fin (of_nat n))) (Fin 100) = Fin q"
    using assms(1) y(1) q(1) by (simp add: x_def)
  ultimately show ?thesis
    unfolding x_def by blast
qed

text \<open>Some roundings that JavaScript prints: \<open>1 / 3 * 100\<close> is \<open>33.33333333333333\<close>,
  \<open>7 / 25 * 100\<close> is \<open>28.000000000000004\<close>, \<open>23 / 40 * 100\<close> is \<open>57.49999999999999\<close>,
  and \<open>0.1 * 3\<close> is \<open>0.30000000000000004\<close>, not the double of \<open>0.3\<close>.\<close>

lemma toDouble_examples:
  "jsmul (jsdiv (Fin 1) (Fin 3)) (Fin 100) = toDouble (3333333333333333 / 10 ^ 14)"
  "jsmul (jsdiv (Fin 7) (Fin 25)) (Fin 100) = Fin (28 + 1 / 2 ^ 48)"
  "jsmul (jsdiv (Fin 7) (Fin 25)) (Fin 100) = toDouble (28000000000000004 / 10 ^ 15)"
  "jsmul (jsdiv (Fin 23) (Fin 40)) (Fin 100) = toDouble (5749999999999999 / 10 ^ 14)"
  "jsmul (toDouble (1 / 10)) (Fin 3) = toDouble (30000000000000004 / 10 ^ 17)"
  "jsmul (toDouble (1 / 10)) (Fin 3) \<noteq> toDouble (3 / 10)"
  "jsmul (jsdiv (Fin 2) (Fin 5)) (Fin 100) = Fin 40"
  by code_simp+

lemma trim_examples:
  "trim ('' Grace  '' @ [CHR 0xC2, CHR 0xA0, CHR 0x09]) = ''Grace''"
  "trim ([CHR 0xE2, CHR 0x80, CHR 0x83] @ ''G H'' @ [CHR 0xEF, CHR 0xBB, CHR 0xBF, CHR 0x0A]) = ''G H''"
  "trim ''Grace '' = ''Grace''"
  by code_simp+

section \<open>Facts about the record store\<close>

lemma find_map_cart_id:
  assumes "\<And>c. cart_id (g c) = cart_id c"
  shows "find (\<lambda>c. cart_id c = k) (map g xs) = map_option g (find (\<lambda>c. cart_id c = k) xs)"
  by (induction xs) (simp_all add: assms)

lemma cart_update_SomeD:
  assumes "cart_update db cid f = Some db'"
  shows "db' = db\<lparr>carts := map (\<lambda>c. if cart_id c = cid then f c else c) (carts db)\<rparr>"
    and "cart_findUnique db cid \<noteq> None"
  using assms by (auto simp: cart_update_def split: option.splits)

lemma cart_findUnique_cart_id:
  "cart_findUnique db k = Some c \<Longrightarrow> cart_id c = k"
  by (auto simp: cart_findUnique_def find_Some_iff)

lemma cart_findUnique_update:
  assumes "cart_update db cid f = Some db'" and "\<And>c. cart_id (f c) = cart_id c"
  shows "cart_findUnique db' k =
           map_option (\<lambda>c. if cart_id c = cid then f c else c) (cart_findUnique db k)"
proof -
  have "carts db' = map (\<lambda>c. if cart_id c = cid then f c else c) (carts db)"
    using cart_update_SomeD(1) [OF assms(1)] by simp
  then show ?thesis
    unfolding cart_findUnique_def
    by (simp add: find_map_cart_id assms(2))
qed

lemma cart_update_Some_iff:
  "(\<exists>db'. cart_update db cid f = Some db') \<longleftrightarrow> cart_findUnique db cid \<noteq> None"
  by (auto simp: cart_update_def split: option.splits)

subsection \<open>Synchronisation writes remote ids only\<close>

lemma remote_id_only_refl: "remote_id_only db db"
  by (simp add: remote_id_only_def list_all2_same)

lemma remote_id_only_update:
  assumes "cart_update db cid (\<lambda>c. c\<lparr>shopifyCartId := x\<rparr>) = Some db'"
  shows "remote_id_only db db'"
  using cart_update_SomeD(1) [OF assms]
  by (simp add: remote_id_only_def list_all2_map2 list_all2_same)

lemma syncCartToShopify_remote_id_only:
  assumes "syncCartToShopify env svc cartId db w = (r, db', w')"
  shows "remote_id_only db db'"
  using assms
  by (auto simp: syncCartToShopify_def Let_def remote_id_only_refl
           split: option.splits prod.splits if_splits
           dest: remote_id_only_update)

lemma getCartRecoveryUrl_remote_id_only:
  assumes "getCartRecoveryUrl env svc cartId db w = (r, db', w')"
  shows "remote_id_only db db'"
  using assms
  by (auto simp: getCartRecoveryUrl_def Let_def remote_id_only_refl
           split: option.splits prod.splits if_splits
           dest: syncCartToShopify_remote_id_only)

lemma remote_id_only_find:
  assumes "remote_id_only db db'"
  shows "rel_option (\<lambda>c c'. c' = c\<lparr>shopifyCartId := shopifyCartId c'\<rparr>)
           (cart_findUnique db k) (cart_findUnique db' k)"
proof -
  have "list_all2 (\<lambda>c c'. c' = c\<lparr>shopifyCartId := shopifyCartId c'\<rparr>) xs ys \<Longrightarrow>
        rel_option (\<lambda>c c'. c' = c\<lparr>shopifyCartId := shopifyCartId c'\<rparr>)
          (find (\<lambda>c. cart_id c = k) xs) (find (\<lambda>c. cart_id c = k) ys)" for xs ys
  proof (induction xs ys rule: list_all2_induct)
    case Nil
    then show ?case by simp
  next
    case (Cons x xs y ys)
    from Cons.hyps(1) have "cart_id y = cart_id x"
      by (metis Cart.select_convs(1) Cart.surjective Cart.update_convs(15))
    with Cons show ?case by simp
  qed
  from this [of "carts db" "carts db'"] assms show ?thesis
    by (simp add: remote_id_only_def cart_findUnique_def)
qed

lemma remote_id_only_findD:
  assumes "remote_id_only db db'" and "cart_findUnique db k = Some c"
  shows "\<exists>x. cart_findUnique db' k = Some (c\<lparr>shopifyCartId := x\<rparr>)"
  using remote_id_only_find [OF assms(1), of k] assms(2)
  by (auto simp: option_rel_Some1)

lemma cart_findUnique_update_other:
  assumes "cart_update db cid f = Some db'" and "\<And>c. cart_id (f c) = cart_id c" and "k \<noteq> cid"
  shows "cart_findUnique db' k = cart_findUnique db k"
proof (cases "cart_findUnique db k")
  case None
  then show ?thesis using cart_findUnique_update [OF assms(1,2), of k] by simp
next
  case (Some c)
  then show ?thesis
    using cart_findUnique_update [OF assms(1,2), of k] cart_findUnique_cart_id [OF Some] assms(3)
    by simp
qed

subsection \<open>Recovery processing\<close>

lemma processRecovery_TrueD:
  assumes "processRecovery env svc cartId db w = (True, db1, w1)"
    and "cart_findUnique db cartId = Some cart"
  shows "cart_findUnique db1 cartId =
           Some (cart\<lparr>recoveryStatus := RECOVERED, recoveredAt := Some (fst (clock env w))\<rparr>)"
proof -
  from assms(1) have
    upd: "cart_update db cartId
            (\<lambda>c. c\<lparr>recoveryStatus := RECOVERED, recoveredAt := Some (fst (clock env w))\<rparr>) = Some db1"
    by (auto simp: processRecovery_def Let_def split: prod.splits option.splits)
  show ?thesis
    using cart_findUnique_update [OF upd, of cartId] assms(2) cart_findUnique_cart_id [OF assms(2)]
    by simp
qed

lemma getCartRecoveryUrl_nonempty:
  assumes "getCartRecoveryUrl env svc cartId db w = (Some url, db', w')"
  shows "url \<noteq> []"
  using assms
  by (auto simp: getCartRecoveryUrl_def getShopifyCheckoutUrl_def or_undefined_def Let_def
           split: option.splits prod.splits if_splits)

subsection \<open>Importing remote checkouts\<close>

text \<open>What the loop body does with a checkout that is not yet imported, in terms of
  the list that \<^verbatim>\<open>mapShopifyItemsToMetastore\<close> returns and of its total in doubles.\<close>

lemma importCheckout_outcome:
  assumes "cart_findFirst db (\<lambda>c. shopifyCartId c = Some (checkout_id checkout) \<and>
                                  storeId c = svc_storeId svc) = None"
  shows "(let cartItems = mapShopifyItemsToMetastore svc db (line_items checkout) in
     (cartItems = [] \<longrightarrow> importCheckout env svc checkout n db w = (Some n, db, w)) \<and>
     (\<forall>t. cartItems \<noteq> [] \<and> cartTotal cartItems = Fin t \<and>
          fst (newId env w) \<notin> cart_id ` set (carts db) \<longrightarrow>
        (\<exists>c. importCheckout env svc checkout n db w
                = (Some (n + 1), db\<lparr>carts := carts db @ [c]\<rparr>, snd (newId env w)) \<and>
             cart_id c = fst (newId env w) \<and> storeId c = svc_storeId svc \<and>
             shopifyCartId c = Some (checkout_id checkout) \<and>
             items c = cartItems \<and> total c = t \<and>
             recoveryStatus c = ABANDONED \<and>
             abandonedAt c = Some (created_at checkout) \<and>
             updatedAt c = updated_at checkout)) \<and>
     (\<forall>t. cartItems \<noteq> [] \<and> cartTotal cartItems = Fin t \<and>
          fst (newId env w) \<in> cart_id ` set (carts db) \<longrightarrow>
        importCheckout env svc checkout n db w = (None, db, snd (newId env w))) \<and>
     (cartItems \<noteq> [] \<and> cartTotal cartItems \<notin> range Fin \<longrightarrow>
        importCheckout env svc checkout n db w = (None, db, w)))"
proof -
  define cartItems where "cartItems = mapShopifyItemsToMetastore svc db (line_items checkout)"
  define c where "c = (\<lambda>t.
    \<lparr>cart_id = fst (newId env w), storeId = svc_storeId svc,
     customerName = checkoutCustomerName checkout, customerEmail = email checkout,
     customerPhone = phone checkout, items = cartItems, total = t,
     updatedAt = updated_at checkout, abandonedAt = Some (created_at checkout),
     recoveryStatus = ABANDONED, lastNotifiedAt = None, recoveredAt = None,
     discountCode = None, discountAmount = None,
     shopifyCartId = Some (checkout_id checkout)\<rparr>)"
  have step: "importCheckout env svc checkout n db w =
      (if cartItems = [] then (Some n, db, w)
       else case cartTotal cartItems of
              Fin t \<Rightarrow>
                (case cart_create db (c t) of
                   None \<Rightarrow> (None, db, snd (newId env w))
                 | Some db' \<Rightarrow> (Some (n + 1), db', snd (newId env w)))
            | _ \<Rightarrow> (None, db, w))"
    using assms
    by (simp add: importCheckout_def Let_def cartItems_def c_def case_prod_beta
             split: jsnum.splits)
  have empty: "cartItems = [] \<longrightarrow> importCheckout env svc checkout n db w = (Some n, db, w)"
    by (simp add: step)
  have created: "\<exists>c. importCheckout env svc checkout n db w
                = (Some (n + 1), db\<lparr>carts := carts db @ [c]\<rparr>, snd (newId env w)) \<and>
             cart_id c = fst (newId env w) \<and> storeId c = svc_storeId svc \<and>
             shopifyCartId c = Some (checkout_id checkout) \<and>
             items c = cartItems \<and> total c = t \<and>
             recoveryStatus c = ABANDONED \<and>
             abandonedAt c = Some (created_at checkout) \<and>
             updatedAt c = updated_at checkout"
    if "cartItems \<noteq> []" "cartTotal cartItems = Fin t"
      "fst (newId env w) \<notin> cart_id ` set (carts db)" for t
  proof (intro exI [of _ "c t"] conjI)
    show "importCheckout env svc checkout n db w
            = (Some (n + 1), db\<lparr>carts := carts db @ [c t]\<rparr>, snd (newId env w))"
      using that by (simp add: step cart_create_def c_def)
  qed (simp_all add: c_def)
  have refused: "importCheckout env svc checkout n db w = (None, db, snd (newId env w))"
    if "cartItems \<noteq> []" "cartTotal cartItems = Fin t"
      "fst (newId env w) \<in> cart_id ` set (carts db)" for t
    using that by (simp add: step cart_create_def c_def)
  have overflow: "importCheckout env svc checkout n db w = (None, db, w)"
    if "cartItems \<noteq> []" "cartTotal cartItems \<notin> range Fin"
    using that by (cases "cartTotal cartItems") (simp_all add: step)
  from empty created refused overflow show ?thesis
    unfolding Let_def cartItems_def by blast
qed

lemma importCheckout_carts:
  assumes "importCheckout env svc checkout n db w = (r, db', w')"
  shows "carts db' = carts db \<or>
         (\<exists>c. carts db' = carts db @ [c] \<and> remote_key (svc_storeId svc) (checkout_id checkout) c \<and>
              filter (remote_key (svc_storeId svc) (checkout_id checkout)) (carts db) = [])"
proof (cases "cart_findFirst db (\<lambda>c. shopifyCartId c = Some (checkout_id checkout) \<and>
                                      storeId c = svc_storeId svc)")
  case (Some existing)
  with assms show ?thesis by (simp add: importCheckout_def)
next
  case None
  then have none: "filter (remote_key (svc_storeId svc) (checkout_id checkout)) (carts db) = []"
    by (auto simp: cart_findFirst_def find_None_iff filter_empty_conv remote_key_def)
  from assms None have "carts db' = carts db \<or>
      (\<exists>c. carts db' = carts db @ [c] \<and> remote_key (svc_storeId svc) (checkout_id checkout) c)"
    by (auto simp: importCheckout_def Let_def cart_create_def remote_key_def
             split: if_splits prod.splits jsnum.splits)
  with none show ?thesis by blast
qed

lemma importCheckout_key_count:
  assumes "importCheckout env svc checkout n db w = (r, db', w')"
  shows "length (filter (remote_key (svc_storeId svc) rid) (carts db)) = 1 \<longrightarrow>
           length (filter (remote_key (svc_storeId svc) rid) (carts db')) = 1"
    and "length (filter (remote_key (svc_storeId svc) rid) (carts db)) \<le> 1 \<longrightarrow>
           length (filter (remote_key (svc_storeId svc) rid) (carts db')) \<le> 1"
  using importCheckout_carts [OF assms]
  by (auto simp: remote_key_def)

lemma importCheckouts_key_count:
  assumes "importCheckouts env svc cs n db w = (r, db', w')"
  shows "(length (filter (remote_key (svc_storeId svc) rid) (carts db)) = 1 \<longrightarrow>
           length (filter (remote_key (svc_storeId svc) rid) (carts db')) = 1) \<and>
         (length (filter (remote_key (svc_storeId svc) rid) (carts db)) \<le> 1 \<longrightarrow>
           length (filter (remote_key (svc_storeId svc) rid) (carts db')) \<le> 1)"
  using assms
proof (induction cs arbitrary: n db w)
  case Nil
  then show ?case by simp
next
  case (Cons c cs)
  obtain r1 db1 w1 where step: "importCheckout env svc c n db w = (r1, db1, w1)"
    by (cases "importCheckout env svc c n db w") auto
  show ?case
  proof (cases r1)
    case None
    with Cons.prems step have "db' = db1" by simp
    with importCheckout_key_count [OF step, of rid] show ?thesis by simp
  next
    case (Some m)
    with Cons.prems step have "importCheckouts env svc cs m db1 w1 = (r, db', w')" by simp
    from Cons.IH [OF this] importCheckout_key_count [OF step, of rid] show ?thesis by blast
  qed
qed


lemma importCheckout_created:
  assumes "importCheckout env svc checkout n db w = (Some (n + 1), db1, w1)"
  shows "\<exists>c. carts db1 = carts db @ [c] \<and>
             remote_key (svc_storeId svc) (checkout_id checkout) c \<and>
             filter (remote_key (svc_storeId svc) (checkout_id checkout)) (carts db) = []"
proof -
  from assms have "carts db1 \<noteq> carts db"
    by (auto simp: importCheckout_def Let_def cart_create_def
             split: option.splits if_splits prod.splits jsnum.splits)
  with importCheckout_carts [OF assms] show ?thesis by blast
qed

subsection \<open>What the scan leaves untouched\<close>

lemma others_unchanged_refl: "others_unchanged S db db"
  by (simp add: others_unchanged_def list_all2_same)

lemma others_unchanged_trans:
  assumes "others_unchanged S db db1" and "others_unchanged T db1 db2"
  shows "others_unchanged (S \<union> T) db db2"
proof -
  have "list_all2 (\<lambda>c c'. cart_id c' = cart_id c \<and> (cart_id c \<notin> S \<union> T \<longrightarrow> c' = c))
          (carts db) (carts db2)"
    using assms [unfolded others_unchanged_def]
    by (rule list_all2_trans [rotated]) auto
  then show ?thesis by (simp add: others_unchanged_def)
qed

lemma others_unchanged_mono:
  assumes "others_unchanged S db db'" and "S \<subseteq> T"
  shows "others_unchanged T db db'"
  using assms unfolding others_unchanged_def
  by (auto elim!: list_all2_mono)

lemma others_unchanged_ids:
  assumes "others_unchanged S db db'"
  shows "map cart_id (carts db') = map cart_id (carts db)"
  using assms unfolding others_unchanged_def
  by (induction rule: list_all2_induct) simp_all

lemma others_unchanged_mem:
  assumes "others_unchanged S db db'" and "c \<in> set (carts db)" and "cart_id c \<notin> S"
  shows "c \<in> set (carts db')"
  using assms unfolding others_unchanged_def
  by (induction rule: list_all2_induct) auto

lemma cart_update_others_unchanged:
  assumes "cart_update db cid f = Some db'" and "\<And>c. cart_id (f c) = cart_id c"
  shows "others_unchanged {cid} db db'"
  using cart_update_SomeD(1) [OF assms(1)] assms(2)
  by (simp add: others_unchanged_def list_all2_map2 list_all2_same)

lemma syncCartToShopify_others_unchanged:
  assumes "syncCartToShopify env svc cartId db w = (r, db', w')"
  shows "others_unchanged {cartId} db db'"
proof -
  from assms have "db' = db \<or> (\<exists>x. cart_update db cartId (\<lambda>c. c\<lparr>shopifyCartId := x\<rparr>) = Some db')"
    by (auto simp: syncCartToShopify_def Let_def split: option.splits prod.splits if_splits)
  then show ?thesis
    by (auto simp: others_unchanged_refl intro: cart_update_others_unchanged)
qed

lemma getCartRecoveryUrl_others_unchanged:
  assumes "getCartRecoveryUrl env svc cartId db w = (r, db', w')"
  shows "others_unchanged {cartId} db db'"
proof -
  from assms have "db' = db \<or> (\<exists>r1 w0 w1. syncCartToShopify env svc cartId db w0 = (r1, db', w1))"
    by (auto simp: getCartRecoveryUrl_def Let_def split: option.splits prod.splits if_splits)
  then show ?thesis
    by (auto simp: others_unchanged_refl dest: syncCartToShopify_others_unchanged)
qed

lemma sendCartRecoveryMessage_others_unchanged:
  assumes "sendCartRecoveryMessage env svc cartId db w = (r, db', w')"
  shows "others_unchanged {cartId} db db'"
proof -
  from assms consider
    (same) "db' = db"
  | (url) u w1 where "getCartRecoveryUrl env svc cartId db w = (u, db', w1)"
  | (upd) u db1 w1 now st where "getCartRecoveryUrl env svc cartId db w = (u, db1, w1)"
      "cart_update db1 cartId (\<lambda>c. c\<lparr>lastNotifiedAt := Some now, recoveryStatus := st\<rparr>) = Some db'"
    unfolding sendCartRecoveryMessage_def Let_def
    by (auto split: option.splits prod.splits if_splits)
  then show ?thesis
  proof cases
    case same
    then show ?thesis by (simp add: others_unchanged_refl)
  next
    case url
    then show ?thesis by (rule getCartRecoveryUrl_others_unchanged)
  next
    case upd
    from others_unchanged_trans [OF getCartRecoveryUrl_others_unchanged [OF upd(1)]
           cart_update_others_unchanged [OF upd(2)]]
    show ?thesis by simp
  qed
qed

lemma abandonedCartStep_others_unchanged:
  assumes "abandonedCartStep env svc cart (res, db, w) = (res', db', w')"
  shows "others_unchanged {cart_id cart} db db'"
proof -
  from assms consider
    (same) "db' = db"
  | (upd) now where
      "cart_update db (cart_id cart) (\<lambda>c. c\<lparr>abandonedAt := Some now, recoveryStatus := ABANDONED\<rparr>)
         = Some db'"
  | (sent) now db1 w1 r where
      "cart_update db (cart_id cart) (\<lambda>c. c\<lparr>abandonedAt := Some now, recoveryStatus := ABANDONED\<rparr>)
         = Some db1"
      "sendCartRecoveryMessage env svc (cart_id cart) db1 w1 = (r, db', w')"
    unfolding abandonedCartStep_def Let_def
    by (auto split: option.splits prod.splits if_splits)
  then show ?thesis
  proof cases
    case same
    then show ?thesis by (simp add: others_unchanged_refl)
  next
    case upd
    then show ?thesis by (auto intro: cart_update_others_unchanged)
  next
    case sent
    from others_unchanged_trans [OF cart_update_others_unchanged [OF sent(1)]
           sendCartRecoveryMessage_others_unchanged [OF sent(2)]]
    show ?thesis by simp
  qed
qed

lemma followUpCartStep_others_unchanged:
  assumes "followUpCartStep env svc cart (res, db, w) = (res', db', w')"
  shows "others_unchanged {cart_id cart} db db'"
proof -
  from assms have "db' = db \<or>
      (\<exists>r. sendCartRecoveryMessage env svc (cart_id cart) db w = (r, db', w'))"
    unfolding followUpCartStep_def Let_def
    by (auto split: prod.splits if_splits)
  then show ?thesis
    by (auto simp: others_unchanged_refl dest: sendCartRecoveryMessage_others_unchanged)
qed

lemma fold_others_unchanged:
  assumes "\<And>x res db w res' db' w'.
             step x (res, db, w) = (res', db', w') \<Longrightarrow> others_unchanged {cart_id x} db db'"
    and "fold step xs (res, db, w) = (res', db', w')"
  shows "others_unchanged (cart_id ` set xs) db db'"
  using assms(2)
proof (induction xs arbitrary: res db w)
  case Nil
  then show ?case by (simp add: others_unchanged_refl)
next
  case (Cons x xs)
  obtain res1 db1 w1 where first: "step x (res, db, w) = (res1, db1, w1)"
    by (cases "step x (res, db, w)") auto
  with Cons.prems have "fold step xs (res1, db1, w1) = (res', db', w')" by simp
  from others_unchanged_trans [OF assms(1) [OF first] Cons.IH [OF this]]
  show ?case by simp
qed


lemma importCheckout_appends:
  assumes "importCheckout env svc checkout n db w = (r, db', w')"
  shows "\<exists>new. carts db' = carts db @ new \<and>
               (distinct (map cart_id (carts db)) \<longrightarrow> distinct (map cart_id (carts db')))"
  using assms
  by (auto simp: importCheckout_def Let_def cart_create_def
           split: option.splits if_splits prod.splits jsnum.splits)

lemma importCheckouts_appends:
  assumes "importCheckouts env svc cs n db w = (r, db', w')"
  shows "\<exists>new. carts db' = carts db @ new \<and>
               (distinct (map cart_id (carts db)) \<longrightarrow> distinct (map cart_id (carts db')))"
  using assms
proof (induction cs arbitrary: n db w)
  case Nil
  then show ?case by simp
next
  case (Cons c cs)
  obtain r1 db1 w1 where step: "importCheckout env svc c n db w = (r1, db1, w1)"
    by (cases "importCheckout env svc c n db w") auto
  show ?case
  proof (cases r1)
    case None
    with Cons.prems step have "db' = db1" by simp
    with importCheckout_appends [OF step] show ?thesis by simp
  next
    case (Some m)
    with Cons.prems step have "importCheckouts env svc cs m db1 w1 = (r, db', w')" by simp
    from Cons.IH [OF this] importCheckout_appends [OF step] show ?thesis by auto
  qed
qed

lemma importAbandonedCarts_appends:
  assumes "importAbandonedCarts env svc db w = (n, db', w')"
  shows "\<exists>new. carts db' = carts db @ new \<and>
               (distinct (map cart_id (carts db)) \<longrightarrow> distinct (map cart_id (carts db')))"
proof -
  obtain cs w0 where fetched: "getAbandonedCarts env svc w = (cs, w0)"
    by (cases "getAbandonedCarts env svc w") auto
  obtain r where "importCheckouts env svc cs 0 db w0 = (r, db', w')"
    using assms fetched
    by (cases "importCheckouts env svc cs 0 db w0")
       (auto simp: importAbandonedCarts_def split: option.splits)
  then show ?thesis by (rule importCheckouts_appends)
qed

lemma distinct_cart_id_eq:
  assumes "distinct (map cart_id xs)" and "x \<in> set xs" and "y \<in> set xs"
    and "cart_id x = cart_id y"
  shows "x = y"
  using assms by (meson distinct_map inj_onD)

lemma cart_findUnique_distinct:
  assumes "distinct (map cart_id (carts db))" and "c \<in> set (carts db)"
  shows "cart_findUnique db (cart_id c) = Some c"
proof (cases "cart_findUnique db (cart_id c)")
  case None
  with assms(2) show ?thesis
    by (auto simp: cart_findUnique_def find_None_iff)
next
  case (Some x)
  then have "x \<in> set (carts db)" "cart_id x = cart_id c"
    by (auto simp: cart_findUnique_def find_Some_iff)
  with distinct_cart_id_eq [OF assms(1) _ assms(2)] Some show ?thesis by simp
qed

lemma markLostCarts_eq:
  "markLostCarts sid now db =
     (length (filter (lostWhere sid now) (carts db)),
      db\<lparr>carts := map (\<lambda>c. if lostWhere sid now c then c\<lparr>recoveryStatus := LOST\<rparr> else c)
                       (carts db)\<rparr>)"
  by (simp add: markLostCarts_def cart_updateMany_def)

lemma processStore_phases:
  assumes init: "initialize (new_CartSyncService sid) db = (True, svc)"
    and run: "processStore env sid (results, db, w) = (results', db', w')"
  shows "\<exists>n1 db1 w1 now2 w2 r3 db3 w3 now3 w4 r5 db5 w5 now4.
           importAbandonedCarts env svc db w = (n1, db1, w1) \<and>
           clock env w1 = (now2, w2) \<and>
           fold (abandonedCartStep env svc) (cart_findMany db1 (abandonedWhere sid now2))
             (results\<lparr>r_imported := r_imported results + n1,
                       r_abandoned := r_abandoned results
                          + length (cart_findMany db1 (abandonedWhere sid now2))\<rparr>, db1, w2)
             = (r3, db3, w3) \<and>
           clock env w3 = (now3, w4) \<and>
           fold (followUpCartStep env svc) (cart_findMany db3 (followUpWhere sid now3))
             (r3\<lparr>r_followUp := r_followUp r3
                    + length (cart_findMany db3 (followUpWhere sid now3))\<rparr>, db3, w4)
             = (r5, db5, w5) \<and>
           clock env w5 = (now4, w') \<and>
           db' = snd (markLostCarts sid now4 db5) \<and>
           r_lost results' = r_lost r5 + fst (markLostCarts sid now4 db5)"
  using run
  by (auto simp: processStore_def init Let_def split: prod.splits)


lemma lostWhere_iff:
  "lostWhere sid now c \<longleftrightarrow>
     storeId c = sid \<and> recoveryStatus c = NOTIFIED_FINAL \<and>
     (\<exists>t. lastNotifiedAt c = Some t \<and> now - t > 48 * 60 * 60 * 1000)"
  by (auto simp: lostWhere_def split: option.splits)

lemma LOST_not_selected:
  assumes "recoveryStatus c = LOST"
  shows "\<not> abandonedWhere sid t c \<and> \<not> followUpWhere sid t c \<and> \<not> lostWhere sid t c"
  using assms by (simp add: abandonedWhere_def followUpWhere_def lostWhere_def)

lemma markLostCarts_again:
  "fst (markLostCarts sid now' (snd (markLostCarts sid now db)))
     = length (filter (\<lambda>c. \<not> lostWhere sid now c \<and> lostWhere sid now' c) (carts db))"
proof -
  have "length (filter (lostWhere sid now')
                  (map (\<lambda>c. if lostWhere sid now c then c\<lparr>recoveryStatus := LOST\<rparr> else c) xs))
          = length (filter (\<lambda>c. \<not> lostWhere sid now c \<and> lostWhere sid now' c) xs)" for xs
    by (induction xs) (auto simp: lostWhere_def)
  then show ?thesis by (simp add: markLostCarts_eq)
qed

lemma processStore_keeps_final:
  assumes distinct: "distinct (map cart_id (carts db))"
    and init: "initialize (new_CartSyncService sid) db = (True, svc)"
    and run: "processStore env sid (results, db, w) = (results', db', w')"
  shows "\<exists>now4 w5. clock env w5 = (now4, w') \<and>
           (\<forall>c\<in>set (carts db). lostWhere sid now4 c \<longrightarrow>
               cart_findUnique db' (cart_id c) = Some (c\<lparr>recoveryStatus := LOST\<rparr>))"
proof -
  from processStore_phases [OF init run]
  obtain n1 db1 w1 now2 w2 r2 r3 db3 w3 now3 w4 r4 r5 db5 w5 now4 where
    imp: "importAbandonedCarts env svc db w = (n1, db1, w1)" and
    p2: "fold (abandonedCartStep env svc) (cart_findMany db1 (abandonedWhere sid now2))
           (r2, db1, w2) = (r3, db3, w3)" and
    p3: "fold (followUpCartStep env svc) (cart_findMany db3 (followUpWhere sid now3))
           (r4, db3, w4) = (r5, db5, w5)" and
    clk: "clock env w5 = (now4, w')" and
    final: "db' = snd (markLostCarts sid now4 db5)"
    by blast
  from importAbandonedCarts_appends [OF imp] distinct
  obtain new where app: "carts db1 = carts db @ new"
    and d1: "distinct (map cart_id (carts db1))"
    by blast
  have u2: "others_unchanged (cart_id ` set (cart_findMany db1 (abandonedWhere sid now2))) db1 db3"
    using fold_others_unchanged [OF abandonedCartStep_others_unchanged p2] .
  have u3: "others_unchanged (cart_id ` set (cart_findMany db3 (followUpWhere sid now3))) db3 db5"
    using fold_others_unchanged [OF followUpCartStep_others_unchanged p3] .
  from d1 others_unchanged_ids [OF u2] have d3: "distinct (map cart_id (carts db3))" by simp
  with others_unchanged_ids [OF u3] have d5: "distinct (map cart_id (carts db5))" by simp
  have carts': "carts db' = map (\<lambda>c. if lostWhere sid now4 c then c\<lparr>recoveryStatus := LOST\<rparr> else c)
                              (carts db5)"
    by (simp add: final markLostCarts_eq)
  have "map cart_id (carts db') = map cart_id (carts db5)"
    unfolding carts' by (induction "carts db5") auto
  with d5 have d': "distinct (map cart_id (carts db'))" by simp
  have "cart_findUnique db' (cart_id c) = Some (c\<lparr>recoveryStatus := LOST\<rparr>)"
    if c: "c \<in> set (carts db)" and lost: "lostWhere sid now4 c" for c
  proof -
    from lost have st: "recoveryStatus c = NOTIFIED_FINAL" by (simp add: lostWhere_def)
    from c app have c1: "c \<in> set (carts db1)" by simp
    have "cart_id c \<notin> cart_id ` set (cart_findMany db1 (abandonedWhere sid now2))"
    proof
      assume "cart_id c \<in> cart_id ` set (cart_findMany db1 (abandonedWhere sid now2))"
      then obtain x where x: "x \<in> set (carts db1)" "abandonedWhere sid now2 x" "cart_id c = cart_id x"
        by (auto simp: cart_findMany_def)
      from distinct_cart_id_eq [OF d1 c1 x(1) x(3)] x(2) st show False
        by (simp add: abandonedWhere_def)
    qed
    from others_unchanged_mem [OF u2 c1 this] have c3: "c \<in> set (carts db3)" .
    have "cart_id c \<notin> cart_id ` set (cart_findMany db3 (followUpWhere sid now3))"
    proof
      assume "cart_id c \<in> cart_id ` set (cart_findMany db3 (followUpWhere sid now3))"
      then obtain x where x: "x \<in> set (carts db3)" "followUpWhere sid now3 x" "cart_id c = cart_id x"
        by (auto simp: cart_findMany_def)
      from distinct_cart_id_eq [OF d3 c3 x(1) x(3)] x(2) st show False
        by (simp add: followUpWhere_def)
    qed
    from others_unchanged_mem [OF u3 c3 this] have "c \<in> set (carts db5)" .
    with lost have "c\<lparr>recoveryStatus := LOST\<rparr> \<in> set (carts db')"
      unfolding carts' by force
    from cart_findUnique_distinct [OF d' this] show ?thesis by simp
  qed
  with clk show ?thesis by blast
qed

subsection \<open>The percentage of the recovery message\<close>

text \<open>With a non-zero discount amount the text is the double of the quotient times
  100, printed with no decimals: when that double is finite and below \<open>10 ^ 21\<close> in
  magnitude, its sign and the integer closest to its magnitude (the larger on a tie);
  without a discount amount, or with the amount 0, the text is empty.\<close>

lemma discountPercent_rounded:
  assumes "discountAmount cart = Some d" and "d \<noteq> 0"
    and "jsmul (jsdiv (Fin d) (Fin (total cart))) (Fin 100) = Fin x" and "\<bar>x\<bar> < 10 ^ 21"
  shows "discountPercent expo cart =
           (if x < 0 then ''-'' else []) @ natToString (nat \<lfloor>\<bar>x\<bar> + 1 / 2\<rfloor>)"
  using assms
  by (simp add: discountPercent_def fixedDigits_def not_le)

lemma discountPercent_omitted:
  assumes "discountAmount cart = None \<or> discountAmount cart = Some 0"
  shows "discountPercent expo cart = []"
  using assms by (auto simp: discountPercent_def)

lemma discountPercent_example:
  "discountPercent (exponentNotation demo_env)
     (free_cart\<lparr>total := 40, discountAmount := Some 23\<rparr>) = ''57''"
  "discountPercent (exponentNotation demo_env)
     (free_cart\<lparr>total := 40, discountAmount := Some 5\<rparr>) = ''13''"
  by code_simp+

text \<open>The total of three items at the double of \<open>0.1\<close> is \<open>0.30000000000000004\<close>.\<close>

lemma cartTotal_example:
  "cartTotal [\<lparr>item_id = ''p3'', item_name = ''Sweet'',
               price = 3602879701896397 / 36028797018963968, quantity = 3, image = None\<rparr>]
     = toDouble (30000000000000004 / 10 ^ 17)"
  "toDouble (1 / 10) = Fin (3602879701896397 / 36028797018963968)"
  by code_simp+

subsection \<open>The two item mappings\<close>

text \<open>Remote to local: when every line item has a variant id, the mapped list is the
  list of the items that resolve, in order; when one has none, it is empty. Local to
  remote: the items without a mapping are dropped.\<close>

lemma mapShopifyItems_loop_step:
  "mapShopifyItems_loop svc db (item # rest) cartItems =
     (case variant_id item of
        None \<Rightarrow> None
      | Some _ \<Rightarrow>
          (case resolveLineItem svc db item of
             None \<Rightarrow> mapShopifyItems_loop svc db rest cartItems
           | Some x \<Rightarrow> mapShopifyItems_loop svc db rest (cartItems @ [x])))"
  by (simp add: resolveLineItem_def split: option.splits)

lemma mapShopifyItems_loop_eq:
  "mapShopifyItems_loop svc db lineItems cartItems =
     (if \<forall>item\<in>set lineItems. variant_id item \<noteq> None
      then Some (cartItems @ List.map_filter (resolveLineItem svc db) lineItems)
      else None)"
proof (induction lineItems arbitrary: cartItems)
  case Nil
  then show ?case by (simp add: List.map_filter_simps)
next
  case (Cons item rest)
  show ?case
    unfolding mapShopifyItems_loop_step
    by (auto simp: Cons.IH List.map_filter_simps split: option.splits)
qed

lemma mapShopifyItemsToMetastore_eq:
  "mapShopifyItemsToMetastore svc db lineItems =
     (if \<forall>item\<in>set lineItems. variant_id item \<noteq> None
      then List.map_filter (resolveLineItem svc db) lineItems
      else [])"
  by (auto simp: mapShopifyItemsToMetastore_def mapShopifyItems_loop_eq)

lemma mapMetastoreItemsToShopify_eq:
  "mapMetastoreItemsToShopify svc db its =
     List.map_filter
       (\<lambda>item. map_option
          (\<lambda>m. \<lparr>merchandiseId = shopifyVariantId m, line_quantity = quantity item\<rparr>)
          (productMapping_findFirst db
             (\<lambda>m. metastoreProductId m = item_id item \<and> pm_storeId m = svc_storeId svc))) its"
  by (induction its) (simp_all add: List.map_filter_simps split: option.splits)

section \<open>Recovery rate\<close>

text \<open>
  Claim C7. \<^verbatim>\<open>getRecoveryStats\<close> reports as notified the carts of the store in
  \<open>NOTIFIED_FIRST\<close> or \<open>NOTIFIED_FINAL\<close>, and as recovery rate the number of
  \<open>RECOVERED\<close> carts divided by the notified count, times 100, as the code computes
  it: the quotient rounded to a double, and its product with 100 rounded to a double.
  For counts below \<open>2 ^ 53\<close> that double is finite and differs from the exact
  quotient times 100 by at most the fraction \<open>2 ^ - 51\<close> of it. When no cart is
  notified the rate is 0 and the division is not made, whose value would be NaN or the
  infinity. With 5 notified and 2 recovered carts the rate is exactly 40.
\<close>

theorem getRecoveryStats_recoveryRate:
  "(let cnt = (\<lambda>st. length (filter (\<lambda>c. storeId c = svc_storeId svc \<and> recoveryStatus c = st)
                                 (carts db)));
        notified = cnt NOTIFIED_FIRST + cnt NOTIFIED_FINAL;
        quotient = jsdiv (Fin (of_nat (cnt RECOVERED))) (Fin (of_nat notified));
        stats = getRecoveryStats svc db
    in stats_notified stats = notified \<and> stats_recovered stats = cnt RECOVERED \<and>
       stats_recoveryRate stats = (if notified = 0 then Fin 0 else jsmul quotient (Fin 100)) \<and>
       (0 < notified \<and> notified \<le> 2 ^ 53 \<and> cnt RECOVERED < 2 ^ 53 \<longrightarrow>
          (\<exists>q. stats_recoveryRate stats = Fin q \<and>
                \<bar>q - of_nat (cnt RECOVERED) / of_nat notified * 100\<bar>
                  \<le> of_nat (cnt RECOVERED) / of_nat notified * 100 / 2 ^ 51)) \<and>
       (notified = 0 \<longrightarrow> jsmul quotient (Fin 100) \<in> {NaN, PosInf}) \<and>
       (notified = 5 \<and> cnt RECOVERED = 2 \<longrightarrow> stats_recoveryRate stats = Fin 40))"
proof -
  define cnt where "cnt = (\<lambda>st. length (filter (\<lambda>c. storeId c = svc_storeId svc \<and>
                                                    recoveryStatus c = st) (carts db)))"
  define notified where "notified = cnt NOTIFIED_FIRST + cnt NOTIFIED_FINAL"
  define quotient where "quotient = jsdiv (Fin (of_nat (cnt RECOVERED))) (Fin (of_nat notified))"
  have forty: "jsmul (jsdiv (Fin 2) (Fin 5)) (Fin 100) = Fin 40"
    by (rule toDouble_examples)
  have counts: "stats_notified (getRecoveryStats svc db) = notified"
    "stats_recovered (getRecoveryStats svc db) = cnt RECOVERED"
    by (simp_all add: getRecoveryStats_def Let_def count_status_def cart_count_def cnt_def
                      notified_def)
  have rate: "stats_recoveryRate (getRecoveryStats svc db)
                = (if notified = 0 then Fin 0 else jsmul quotient (Fin 100))"
    by (simp add: getRecoveryStats_def Let_def count_status_def cart_count_def cnt_def
                  notified_def quotient_def del: jsdiv.simps jsmul.simps)
  have unguarded: "jsmul quotient (Fin 100) \<in> {NaN, PosInf}" if "notified = 0"
    using that by (cases "cnt RECOVERED = 0") (simp_all add: quotient_def)
  have example: "stats_recoveryRate (getRecoveryStats svc db) = Fin 40"
    if "notified = 5" "cnt RECOVERED = 2"
    using that forty by (simp add: rate quotient_def del: jsdiv.simps jsmul.simps)
  have accurate: "\<exists>q. stats_recoveryRate (getRecoveryStats svc db) = Fin q \<and>
                \<bar>q - of_nat (cnt RECOVERED) / of_nat notified * 100\<bar>
                  \<le> of_nat (cnt RECOVERED) / of_nat notified * 100 / 2 ^ 51"
    if "0 < notified" "notified \<le> 2 ^ 53" "cnt RECOVERED < 2 ^ 53"
    using recoveryRate_accuracy [OF that] that(1)
    by (simp add: rate quotient_def del: jsdiv.simps jsmul.simps)
  from counts rate accurate unguarded example show ?thesis
    unfolding Let_def cnt_def [symmetric] notified_def [symmetric] quotient_def [symmetric]
    by blast
qed

theorem getRecoveryStats_recoveryRate_witness:
  "stats_notified (getRecoveryStats s1 stats_db) = 5 \<and>
   stats_recovered (getRecoveryStats s1 stats_db) = 2 \<and>
   stats_recoveryRate (getRecoveryStats s1 stats_db) = Fin 40"
proof -
  let ?cnt = "\<lambda>st. length (filter (\<lambda>c. storeId c = svc_storeId s1 \<and> recoveryStatus c = st)
                                (carts stats_db))"
  have first: "?cnt NOTIFIED_FIRST = 2"
    by (simp add: stats_db_def mk_db_def mk_cart_def s1_def)
  have final: "?cnt NOTIFIED_FINAL = 3"
    by (simp add: stats_db_def mk_db_def mk_cart_def s1_def)
  have recovered: "?cnt RECOVERED = 2"
    by (simp add: stats_db_def mk_db_def mk_cart_def s1_def)
  from getRecoveryStats_recoveryRate [of s1 stats_db]
  have "stats_notified (getRecoveryStats s1 stats_db) = ?cnt NOTIFIED_FIRST + ?cnt NOTIFIED_FINAL \<and>
        stats_recovered (getRecoveryStats s1 stats_db) = ?cnt RECOVERED \<and>
        (?cnt NOTIFIED_FIRST + ?cnt NOTIFIED_FINAL = 5 \<and> ?cnt RECOVERED = 2 \<longrightarrow>
           stats_recoveryRate (getRecoveryStats s1 stats_db) = Fin 40)"
    unfolding Let_def by blast
  then show ?thesis
    unfolding first final recovered by simp
qed

section \<open>Status after a recovery message\<close>

text \<open>
  Claim C3. When \<^verbatim>\<open>sendCartRecoveryMessage\<close> returns \<^verbatim>\<open>true\<close>, the cart it was called
  for exists, and afterwards it is the cart as it was with three fields written: the
  recovery status is \<open>NOTIFIED_FIRST\<close> if it was \<open>ABANDONED\<close> and \<open>NOTIFIED_FINAL\<close>
  from every other status (so never \<open>NOTIFIED_FIRST\<close> again from a notified state),
  the last-notified timestamp is the time the clock gave to the method as its last
  step, and the remote cart id is the one left by the synchronisation.
\<close>

theorem sendCartRecoveryMessage_advances_status:
  assumes "sendCartRecoveryMessage env svc cartId db w = (True, db', w')"
  shows "\<exists>cart cart' now w0 x.
           cart_findUnique db cartId = Some cart \<and>
           cart_findUnique db' cartId = Some cart' \<and>
           clock env w0 = (now, w') \<and>
           cart' = cart\<lparr>shopifyCartId := x, lastNotifiedAt := Some now,
                         recoveryStatus := (if recoveryStatus cart = ABANDONED
                                            then NOTIFIED_FIRST else NOTIFIED_FINAL)\<rparr>"
proof -
  from assms obtain cart where cart: "cart_findUnique db cartId = Some cart"
    by (auto simp: sendCartRecoveryMessage_def split: option.splits)
  from assms cart obtain url db1 w1 w2 now where
    url: "getCartRecoveryUrl env svc cartId db w = (url, db1, w1)" and
    clk: "clock env w2 = (now, w')" and
    upd: "cart_update db1 cartId
            (\<lambda>c. c\<lparr>lastNotifiedAt := Some now,
                    recoveryStatus := (if recoveryStatus cart = ABANDONED then NOTIFIED_FIRST
                                       else NOTIFIED_FINAL)\<rparr>) = Some db'"
    by (auto simp: sendCartRecoveryMessage_def Let_def
             split: option.splits prod.splits if_splits)
  from remote_id_only_findD [OF getCartRecoveryUrl_remote_id_only [OF url] cart]
  obtain x where c1: "cart_findUnique db1 cartId = Some (cart\<lparr>shopifyCartId := x\<rparr>)" ..
  have "cart_findUnique db' cartId =
          Some (cart\<lparr>shopifyCartId := x, lastNotifiedAt := Some now,
                      recoveryStatus := (if recoveryStatus cart = ABANDONED then NOTIFIED_FIRST
                                         else NOTIFIED_FINAL)\<rparr>)"
    using cart_findUnique_update [OF upd, of cartId] c1 cart_findUnique_cart_id [OF cart]
    by simp
  with cart clk show ?thesis by blast
qed

theorem sendCartRecoveryMessage_advances_status_witness:
  "fst (sendCartRecoveryMessage demo_env s1 ''c1'' send_db 0) \<and>
   (\<exists>cart cart' now w0 x.
      cart_findUnique send_db ''c1'' = Some cart \<and>
      cart_findUnique (fst (snd (sendCartRecoveryMessage demo_env s1 ''c1'' send_db 0))) ''c1''
        = Some cart' \<and>
      clock demo_env w0 = (now, snd (snd (sendCartRecoveryMessage demo_env s1 ''c1'' send_db 0))) \<and>
      cart' = cart\<lparr>shopifyCartId := x, lastNotifiedAt := Some now,
                    recoveryStatus := (if recoveryStatus cart = ABANDONED
                                       then NOTIFIED_FIRST else NOTIFIED_FINAL)\<rparr>)"
proof -
  have sent: "fst (sendCartRecoveryMessage demo_env s1 ''c1'' send_db 0)"
    by code_simp
  then have "sendCartRecoveryMessage demo_env s1 ''c1'' send_db 0 =
               (True, fst (snd (sendCartRecoveryMessage demo_env s1 ''c1'' send_db 0)),
                snd (snd (sendCartRecoveryMessage demo_env s1 ''c1'' send_db 0)))"
    by (simp add: prod_eq_iff)
  from sendCartRecoveryMessage_advances_status [OF this] sent show ?thesis
    by blast
qed

section \<open>Synchronising a cart to the remote platform\<close>

text \<open>
  Claim C8. \<^verbatim>\<open>syncCartToShopify\<close> returns \<^verbatim>\<open>null\<close> and changes nothing when the local
  cart does not exist. For an existing cart that has a remote id, the update in place is
  requested first, and its success returns that id. When the update fails, or the cart
  has no remote id, a remote cart is created (from the world the update attempt left):
  a failed creation returns \<^verbatim>\<open>null\<close> with the record store unchanged, and a created
  (non-empty) id is returned and written to the local cart, every other cart staying as
  it was. The failure of the update never is the result.
\<close>

theorem syncCartToShopify_fallback:
  "(cart_findUnique db cartId = None \<longrightarrow>
      syncCartToShopify env svc cartId db w = (None, db, w)) \<and>
   (\<forall>cart. cart_findUnique db cartId = Some cart \<longrightarrow>
      (let attempt = (case shopifyCartId cart of
                        None \<Rightarrow> (False, w)
                      | Some sid \<Rightarrow> if sid \<noteq> []
                                    then updateShopifyCart env svc db sid (items cart) w
                                    else (False, w))
       in if fst attempt
          then syncCartToShopify env svc cartId db w = (shopifyCartId cart, db, snd attempt)
          else (let created = createShopifyCart env svc db (items cart)
                                (Some (or_undefined (customerEmail cart),
                                       or_undefined (customerPhone cart))) (snd attempt)
                in case fst created of
                     None \<Rightarrow> syncCartToShopify env svc cartId db w = (None, db, snd created)
                   | Some newCartId \<Rightarrow>
                       newCartId \<noteq> [] \<longrightarrow>
                       (\<exists>db'. syncCartToShopify env svc cartId db w
                                = (Some newCartId, db', snd created) \<and>
                              cart_findUnique db' cartId
                                = Some (cart\<lparr>shopifyCartId := Some newCartId\<rparr>) \<and>
                              (\<forall>k. k \<noteq> cartId \<longrightarrow> cart_findUnique db' k = cart_findUnique db k) \<and>
                              remote_id_only db db'))))"
  (is "?missing \<and> (\<forall>cart. ?found cart \<longrightarrow> ?outcome cart)")
proof (intro conjI allI impI)
  show "syncCartToShopify env svc cartId db w = (None, db, w)"
    if "cart_findUnique db cartId = None"
    using that by (simp add: syncCartToShopify_def)
next
  fix cart
  assume cart: "cart_findUnique db cartId = Some cart"
  define attempt where "attempt =
    (case shopifyCartId cart of
       None \<Rightarrow> (False, w)
     | Some sid \<Rightarrow> if sid \<noteq> [] then updateShopifyCart env svc db sid (items cart) w
                   else (False, w))"
  define created where "created = createShopifyCart env svc db (items cart)
      (Some (or_undefined (customerEmail cart), or_undefined (customerPhone cart))) (snd attempt)"
  have sync: "syncCartToShopify env svc cartId db w =
      (if fst attempt then (shopifyCartId cart, db, snd attempt)
       else if truthy (fst created)
            then (case cart_update db cartId (\<lambda>c. c\<lparr>shopifyCartId := fst created\<rparr>) of
                    None \<Rightarrow> (None, db, snd created)
                  | Some db' \<Rightarrow> (fst created, db', snd created))
            else (fst created, db, snd created))"
    using cart
    by (simp add: syncCartToShopify_def attempt_def created_def Let_def
             split: prod.splits option.splits)
  have "if fst attempt
        then syncCartToShopify env svc cartId db w = (shopifyCartId cart, db, snd attempt)
        else (case fst created of
                None \<Rightarrow> syncCartToShopify env svc cartId db w = (None, db, snd created)
              | Some newCartId \<Rightarrow>
                  newCartId \<noteq> [] \<longrightarrow>
                  (\<exists>db'. syncCartToShopify env svc cartId db w
                           = (Some newCartId, db', snd created) \<and>
                         cart_findUnique db' cartId
                           = Some (cart\<lparr>shopifyCartId := Some newCartId\<rparr>) \<and>
                         (\<forall>k. k \<noteq> cartId \<longrightarrow> cart_findUnique db' k = cart_findUnique db k) \<and>
                         remote_id_only db db'))"
  proof (cases "fst attempt")
    case True
    then show ?thesis by (simp add: sync)
  next
    case False
    show ?thesis
    proof (cases "fst created")
      case None
      with False show ?thesis by (simp add: sync)
    next
      case (Some newCartId)
      show ?thesis
      proof (cases "newCartId = []")
        case True
        with False Some show ?thesis by simp
      next
        case nonempty: False
        from cart cart_update_Some_iff [of db cartId "\<lambda>c. c\<lparr>shopifyCartId := Some newCartId\<rparr>"]
        obtain db' where
          upd: "cart_update db cartId (\<lambda>c. c\<lparr>shopifyCartId := Some newCartId\<rparr>) = Some db'"
          by auto
        have "cart_findUnique db' cartId = Some (cart\<lparr>shopifyCartId := Some newCartId\<rparr>)"
          using cart_findUnique_update [OF upd, of cartId] cart cart_findUnique_cart_id [OF cart]
          by simp
        moreover have "\<forall>k. k \<noteq> cartId \<longrightarrow> cart_findUnique db' k = cart_findUnique db k"
          using cart_findUnique_update_other [OF upd] by simp
        moreover have "remote_id_only db db'"
          using remote_id_only_update [OF upd] .
        ultimately show ?thesis
          using False Some nonempty upd by (simp add: sync)
      qed
    qed
  qed
  then show "?outcome cart"
    unfolding Let_def attempt_def created_def .
qed

theorem syncCartToShopify_fallback_witness:
  "cart_findUnique send_db ''c1'' = Some (mk_cart ''c1'' ''s1'' ABANDONED) \<and>
   updateShopifyCart update_fails_env s1 send_db ''gid1''
     (items (mk_cart ''c1'' ''s1'' ABANDONED)) 0 = (False, 1) \<and>
   (\<exists>db'. syncCartToShopify update_fails_env s1 ''c1'' send_db 0 = (Some ''gid2'', db', 2) \<and>
          cart_findUnique db' ''c1''
            = Some ((mk_cart ''c1'' ''s1'' ABANDONED)\<lparr>shopifyCartId := Some ''gid2''\<rparr>) \<and>
          (\<forall>k. k \<noteq> ''c1'' \<longrightarrow> cart_findUnique db' k = cart_findUnique send_db k) \<and>
          remote_id_only send_db db')"
proof -
  have found: "cart_findUnique send_db ''c1'' = Some (mk_cart ''c1'' ''s1'' ABANDONED)"
    by (simp add: cart_findUnique_def send_db_def mk_db_def mk_cart_def)
  have failed: "updateShopifyCart update_fails_env s1 send_db ''gid1''
                  (items (mk_cart ''c1'' ''s1'' ABANDONED)) 0 = (False, 1)"
    by (simp add: updateShopifyCart_def update_fails_env_def demo_env_def)
  have created: "createShopifyCart update_fails_env s1 send_db
                   (items (mk_cart ''c1'' ''s1'' ABANDONED))
                   (Some (or_undefined (customerEmail (mk_cart ''c1'' ''s1'' ABANDONED)),
                          or_undefined (customerPhone (mk_cart ''c1'' ''s1'' ABANDONED)))) 1
                 = (Some ''gid2'', 2)"
    by (simp add: createShopifyCart_def update_fails_env_def demo_env_def numeral_2_eq_2)
  have remote: "shopifyCartId (mk_cart ''c1'' ''s1'' ABANDONED) = Some ''gid1''"
    by (simp add: mk_cart_def)
  from syncCartToShopify_fallback [of send_db "''c1''" update_fails_env s1 0]
       found failed created remote
  show ?thesis
    by (simp add: Let_def)
qed

section \<open>The manual recovery endpoint marks before it fetches\<close>

text \<open>
  Claim C10. In the manual recovery endpoint the cart is marked \<open>RECOVERED\<close>, with its
  recovered timestamp, before the recovery URL is asked for. For every request that
  reaches the recovery (cart found, code not rejected, service initialised) in which
  \<^verbatim>\<open>processRecovery\<close> succeeds and \<^verbatim>\<open>getCartRecoveryUrl\<close> then returns \<^verbatim>\<open>null\<close>, the
  response is the failure \<open>500 Failed to get recovery URL\<close> and the cart is still
  \<open>RECOVERED\<close> in the record store the endpoint leaves: nothing is rolled back.
\<close>

theorem recovery_GET_not_rolled_back:
  assumes "cartId \<noteq> []"
    and "cart_findUnique db cartId = Some cart"
    and "\<not> (truthy code \<and> truthy (discountCode cart) \<and> code \<noteq> discountCode cart)"
    and "initialize (new_CartSyncService (storeId cart)) db = (True, svc)"
    and "processRecovery env svc cartId db w = (True, db1, w1)"
    and "getCartRecoveryUrl env svc cartId db1 w1 = (None, db2, w2)"
  shows "recovery_GET env (Some cartId) code db w
           = (JsonError 500 ''Failed to get recovery URL'', db2, w2) \<and>
         (\<exists>c1. cart_findUnique db1 cartId = Some c1 \<and> recoveryStatus c1 = RECOVERED \<and>
               recoveredAt c1 = Some (fst (clock env w))) \<and>
         (\<exists>c2. cart_findUnique db2 cartId = Some c2 \<and> recoveryStatus c2 = RECOVERED \<and>
               recoveredAt c2 = Some (fst (clock env w)))"
proof (intro conjI)
  show "recovery_GET env (Some cartId) code db w
          = (JsonError 500 ''Failed to get recovery URL'', db2, w2)"
    using assms by (simp add: recovery_GET_def)
next
  note c1 = processRecovery_TrueD [OF assms(5) assms(2)]
  then show "\<exists>c1. cart_findUnique db1 cartId = Some c1 \<and> recoveryStatus c1 = RECOVERED \<and>
               recoveredAt c1 = Some (fst (clock env w))"
    by simp
  from remote_id_only_findD [OF getCartRecoveryUrl_remote_id_only [OF assms(6)] c1]
  show "\<exists>c2. cart_findUnique db2 cartId = Some c2 \<and> recoveryStatus c2 = RECOVERED \<and>
               recoveredAt c2 = Some (fst (clock env w))"
    by auto
qed

theorem recovery_GET_not_rolled_back_witness:
  "recovery_GET remote_cart_gone_env (Some ''c1'') None send_db 0
     = (JsonError 500 ''Failed to get recovery URL'',
        fst (snd (processRecovery remote_cart_gone_env s1 ''c1'' send_db 0)), 3) \<and>
   (\<exists>c2. cart_findUnique (fst (snd (processRecovery remote_cart_gone_env s1 ''c1'' send_db 0))) ''c1''
            = Some c2 \<and>
          recoveryStatus c2 = RECOVERED \<and> recoveredAt c2 = Some 0)"
proof -
  let ?db1 = "fst (snd (processRecovery remote_cart_gone_env s1 ''c1'' send_db 0))"
  have found: "cart_findUnique send_db ''c1'' = Some (mk_cart ''c1'' ''s1'' ABANDONED)"
    by (simp add: cart_findUnique_def send_db_def mk_db_def mk_cart_def)
  have valid: "\<not> (truthy None \<and> truthy (discountCode (mk_cart ''c1'' ''s1'' ABANDONED)) \<and>
                   None \<noteq> discountCode (mk_cart ''c1'' ''s1'' ABANDONED))"
    by simp
  have init: "initialize (new_CartSyncService (storeId (mk_cart ''c1'' ''s1'' ABANDONED))) send_db
                = (True, s1)"
    by code_simp
  have rec: "processRecovery remote_cart_gone_env s1 ''c1'' send_db 0 = (True, ?db1, 1)"
    by code_simp
  have url: "getCartRecoveryUrl remote_cart_gone_env s1 ''c1'' ?db1 1 = (None, ?db1, 3)"
    by code_simp
  have clk: "fst (clock remote_cart_gone_env 0) = 0"
    by code_simp
  from recovery_GET_not_rolled_back [OF _ found valid init rec url] clk
  show ?thesis by simp
qed

section \<open>The manual recovery endpoint validates a supplied code\<close>

text \<open>
  Claim C9, as the code has it. The manual recovery endpoint compares the discount code
  of the request with the cart's only when the request supplies a non-empty code and
  the cart carries a non-empty one; when the two differ the request is rejected with
  \<open>400 Invalid discount code\<close> and neither the record store nor the world changes. A
  request that is not rejected, for a cart whose store initialises the service, and for
  which \<^verbatim>\<open>processRecovery\<close> and \<^verbatim>\<open>getCartRecoveryUrl\<close> succeed, leaves the cart
  \<open>RECOVERED\<close> and is answered by a redirect to the URL that \<^verbatim>\<open>getCartRecoveryUrl\<close>
  returned; and every redirect comes about in this way.
\<close>

theorem recovery_GET_validation:
  "(\<forall>cart. cart_findUnique db cartId = Some cart \<and> cartId \<noteq> [] \<and>
       truthy code \<and> truthy (discountCode cart) \<and> code \<noteq> discountCode cart \<longrightarrow>
       recovery_GET env (Some cartId) code db w = (JsonError 400 ''Invalid discount code'', db, w)) \<and>
   (\<forall>cart svc db1 w1 url db2 w2.
       cart_findUnique db cartId = Some cart \<and> cartId \<noteq> [] \<and>
       \<not> (truthy code \<and> truthy (discountCode cart) \<and> code \<noteq> discountCode cart) \<and>
       initialize (new_CartSyncService (storeId cart)) db = (True, svc) \<and>
       processRecovery env svc cartId db w = (True, db1, w1) \<and>
       getCartRecoveryUrl env svc cartId db1 w1 = (Some url, db2, w2) \<longrightarrow>
       recovery_GET env (Some cartId) code db w = (Redirect url, db2, w2) \<and>
       (\<exists>c2. cart_findUnique db2 cartId = Some c2 \<and> recoveryStatus c2 = RECOVERED \<and>
             recoveredAt c2 = Some (fst (clock env w)))) \<and>
   (\<forall>url db2 w2.
       recovery_GET env (Some cartId) code db w = (Redirect url, db2, w2) \<longrightarrow>
       (\<exists>cart svc db1 w1.
          cart_findUnique db cartId = Some cart \<and>
          \<not> (truthy code \<and> truthy (discountCode cart) \<and> code \<noteq> discountCode cart) \<and>
          initialize (new_CartSyncService (storeId cart)) db = (True, svc) \<and>
          processRecovery env svc cartId db w = (True, db1, w1) \<and>
          getCartRecoveryUrl env svc cartId db1 w1 = (Some url, db2, w2)))"
proof (intro conjI allI impI; (elim conjE)?)
  fix cart
  assume "cart_findUnique db cartId = Some cart" "cartId \<noteq> []" "truthy code"
    "truthy (discountCode cart)" "code \<noteq> discountCode cart"
  then show "recovery_GET env (Some cartId) code db w
               = (JsonError 400 ''Invalid discount code'', db, w)"
    by (simp add: recovery_GET_def)
next
  fix cart svc db1 w1 url db2 w2
  assume cart: "cart_findUnique db cartId = Some cart" and ne: "cartId \<noteq> []"
    and ok: "\<not> (truthy code \<and> truthy (discountCode cart) \<and> code \<noteq> discountCode cart)"
    and init: "initialize (new_CartSyncService (storeId cart)) db = (True, svc)"
    and rec: "processRecovery env svc cartId db w = (True, db1, w1)"
    and url: "getCartRecoveryUrl env svc cartId db1 w1 = (Some url, db2, w2)"
  from getCartRecoveryUrl_nonempty [OF url] cart ne ok init rec url
  show "recovery_GET env (Some cartId) code db w = (Redirect url, db2, w2)"
    by (simp add: recovery_GET_def)
  from remote_id_only_findD [OF getCartRecoveryUrl_remote_id_only [OF url]
         processRecovery_TrueD [OF rec cart]]
  show "\<exists>c2. cart_findUnique db2 cartId = Some c2 \<and> recoveryStatus c2 = RECOVERED \<and>
             recoveredAt c2 = Some (fst (clock env w))"
    by auto
next
  fix url db2 w2
  assume "recovery_GET env (Some cartId) code db w = (Redirect url, db2, w2)"
  then show "\<exists>cart svc db1 w1.
          cart_findUnique db cartId = Some cart \<and>
          \<not> (truthy code \<and> truthy (discountCode cart) \<and> code \<noteq> discountCode cart) \<and>
          initialize (new_CartSyncService (storeId cart)) db = (True, svc) \<and>
          processRecovery env svc cartId db w = (True, db1, w1) \<and>
          getCartRecoveryUrl env svc cartId db1 w1 = (Some url, db2, w2)"
    by (auto simp: recovery_GET_def Let_def split: option.splits if_splits prod.splits)
qed


theorem recovery_GET_validation_witness:
  "recovery_GET demo_env (Some ''c1'') (Some ''WRONG'') discount_db 0
     = (JsonError 400 ''Invalid discount code'', discount_db, 0) \<and>
   fst (recovery_GET demo_env (Some ''c1'') (Some ''SAVE10'') discount_db 0)
     = Redirect ''https://shop.example/cart/c?key=gid1&discount=SAVE10''"
proof -
  let ?cart = "(mk_cart ''c1'' ''s1'' NOTIFIED_FIRST)\<lparr>discountCode := Some ''SAVE10'',
                                                      discountAmount := Some 5\<rparr>"
  let ?db1 = "fst (snd (processRecovery demo_env s1 ''c1'' discount_db 0))"
  have found: "cart_findUnique discount_db ''c1'' = Some ?cart"
    by (simp add: cart_findUnique_def discount_db_def mk_db_def mk_cart_def)
  have code: "discountCode ?cart = Some ''SAVE10''"
    by simp
  have init: "initialize (new_CartSyncService (storeId ?cart)) discount_db = (True, s1)"
    by code_simp
  have rec: "processRecovery demo_env s1 ''c1'' discount_db 0 = (True, ?db1, 1)"
    by code_simp
  have url: "getCartRecoveryUrl demo_env s1 ''c1'' ?db1 1
               = (Some ''https://shop.example/cart/c?key=gid1&discount=SAVE10'', ?db1, 4)"
    by code_simp
  have rejected: "recovery_GET demo_env (Some ''c1'') (Some ''WRONG'') discount_db 0
                    = (JsonError 400 ''Invalid discount code'', discount_db, 0)"
    using recovery_GET_validation [of discount_db "''c1''" "Some ''WRONG''" demo_env 0]
      found code
    by simp
  have "recovery_GET demo_env (Some ''c1'') (Some ''SAVE10'') discount_db 0
          = (Redirect ''https://shop.example/cart/c?key=gid1&discount=SAVE10'', ?db1, 4)"
    using recovery_GET_validation [of discount_db "''c1''" "Some ''SAVE10''" demo_env 0]
      found code init rec url
    by simp
  with rejected show ?thesis by simp
qed

theorem recovery_GET_validation_counterexample:
  "map discountCode (carts discount_db) = [Some ''SAVE10''] \<and>
   fst (recovery_GET update_fails_env (Some ''c1'') None discount_db 0)
     = Redirect ''https://shop.example/cart/c?key=gid1&discount=SAVE10'' \<and>
   map recoveryStatus (carts (fst (snd (recovery_GET update_fails_env (Some ''c1'') None discount_db 0))))
     = [RECOVERED] \<and>
   map shopifyCartId (carts (fst (snd (recovery_GET update_fails_env (Some ''c1'') None discount_db 0))))
     = [Some ''gid2'']"
  by code_simp

section \<open>The initialisation gate\<close>

text \<open>
  Claim C1, as the code has it. \<^verbatim>\<open>initialize\<close> returns \<^verbatim>\<open>true\<close> exactly when the store
  row exists and its external-platform access token and store URL are both present and
  non-empty; the messaging credentials are not looked at. A failed \<^verbatim>\<open>initialize\<close>
  leaves the service as it was, and it is the caller that stops: the scan counts one
  error for the store and changes nothing, and the manual recovery endpoint answers
  with an error and changes nothing. The methods of the service do not test the
  initialisation themselves. When a messaging credential of the cart's store is absent,
  \<^verbatim>\<open>sendCartRecoveryMessage\<close> returns \<^verbatim>\<open>false\<close> and changes nothing.
\<close>

theorem initialize_gate:
  "(fst (initialize svc db) \<longleftrightarrow>
      (\<exists>store. store_findUnique db (svc_storeId svc) = Some store \<and>
               truthy (shopifyAccessToken store) \<and> truthy (shopifyStoreUrl store))) \<and>
   (\<not> fst (initialize svc db) \<longrightarrow> snd (initialize svc db) = svc) \<and>
   (\<not> fst (initialize (new_CartSyncService sid) db) \<longrightarrow>
      processStore env sid (results, db, w) = (results\<lparr>r_errors := r_errors results + 1\<rparr>, db, w)) \<and>
   (\<forall>cart. cart_findUnique db cartId = Some cart \<and>
           \<not> fst (initialize (new_CartSyncService (storeId cart)) db) \<longrightarrow>
           (\<exists>status message.
              recovery_GET env (Some cartId) code db w = (JsonError status message, db, w))) \<and>
   (\<forall>cart store. cart_findUnique db cartId = Some cart \<and>
           store_findUnique db (storeId cart) = Some store \<and>
           (\<not> truthy (whatsappPhoneNumberId store) \<or> \<not> truthy (whatsappAccessToken store)) \<longrightarrow>
           sendCartRecoveryMessage env svc cartId db w = (False, db, w))"
proof (intro conjI allI impI; (elim conjE)?)
  show "fst (initialize svc db) \<longleftrightarrow>
      (\<exists>store. store_findUnique db (svc_storeId svc) = Some store \<and>
               truthy (shopifyAccessToken store) \<and> truthy (shopifyStoreUrl store))"
    by (auto simp: initialize_def split: option.splits)
next
  assume "\<not> fst (initialize svc db)"
  then show "snd (initialize svc db) = svc"
    by (auto simp: initialize_def split: option.splits if_splits)
next
  assume "\<not> fst (initialize (new_CartSyncService sid) db)"
  then show "processStore env sid (results, db, w)
               = (results\<lparr>r_errors := r_errors results + 1\<rparr>, db, w)"
    by (cases "initialize (new_CartSyncService sid) db") (simp add: processStore_def)
next
  fix cart
  assume "cart_findUnique db cartId = Some cart"
    and "\<not> fst (initialize (new_CartSyncService (storeId cart)) db)"
  then show "\<exists>status message.
               recovery_GET env (Some cartId) code db w = (JsonError status message, db, w)"
    by (cases "initialize (new_CartSyncService (storeId cart)) db")
       (simp add: recovery_GET_def)
next
  fix cart store
  assume "cart_findUnique db cartId = Some cart"
    and "store_findUnique db (storeId cart) = Some store"
    and "\<not> truthy (whatsappPhoneNumberId store) \<or> \<not> truthy (whatsappAccessToken store)"
  then show "sendCartRecoveryMessage env svc cartId db w = (False, db, w)"
    by (cases "whatsappPhoneNumberId store"; cases "whatsappAccessToken store";
        cases "customerPhone cart")
       (auto simp: sendCartRecoveryMessage_def)
qed

theorem initialize_gate_witness:
  "\<not> fst (initialize (new_CartSyncService ''s1'') nocred_db) \<and>
   snd (initialize (new_CartSyncService ''s1'') nocred_db) = new_CartSyncService ''s1'' \<and>
   processStore demo_env ''s1'' (zero_results, nocred_db, 0)
     = (zero_results\<lparr>r_errors := 1\<rparr>, nocred_db, 0) \<and>
   (\<exists>status message.
      recovery_GET demo_env (Some ''c1'') None nocred_db 0
        = (JsonError status message, nocred_db, 0)) \<and>
   sendCartRecoveryMessage demo_env s1 ''c1'' nowhatsapp_db 0 = (False, nowhatsapp_db, 0)"
proof -
  have uninit: "\<not> fst (initialize (new_CartSyncService ''s1'') nocred_db)"
    by code_simp
  have found: "cart_findUnique nocred_db ''c1'' = Some (mk_cart ''c1'' ''s1'' ABANDONED)"
    by (simp add: cart_findUnique_def nocred_db_def mk_db_def mk_cart_def)
  have sid: "storeId (mk_cart ''c1'' ''s1'' ABANDONED) = ''s1''"
    by (simp add: mk_cart_def)
  have found': "cart_findUnique nowhatsapp_db ''c1'' = Some (mk_cart ''c1'' ''s1'' ABANDONED)"
    by (simp add: cart_findUnique_def nowhatsapp_db_def mk_db_def mk_cart_def)
  have store: "store_findUnique nowhatsapp_db ''s1''
                 = Some ((mk_store ''s1'')\<lparr>whatsappAccessToken := None\<rparr>)"
    by (simp add: store_findUnique_def nowhatsapp_db_def mk_db_def mk_store_def)
  have a: "snd (initialize (new_CartSyncService ''s1'') nocred_db) = new_CartSyncService ''s1''"
    and b: "processStore demo_env ''s1'' (zero_results, nocred_db, 0)
              = (zero_results\<lparr>r_errors := 1\<rparr>, nocred_db, 0)"
    and c: "\<exists>status message.
              recovery_GET demo_env (Some ''c1'') None nocred_db 0
                = (JsonError status message, nocred_db, 0)"
    using initialize_gate [where svc = "new_CartSyncService ''s1''" and db = nocred_db
                             and sid = "''s1''" and env = demo_env and results = zero_results
                             and w = 0 and cartId = "''c1''" and code = None]
      uninit found sid
    by (simp_all add: zero_results_def)
  have d: "sendCartRecoveryMessage demo_env s1 ''c1'' nowhatsapp_db 0 = (False, nowhatsapp_db, 0)"
    using initialize_gate [where svc = s1 and db = nowhatsapp_db and env = demo_env
                             and w = 0 and cartId = "''c1''"]
      found' store sid
    by simp
  from uninit a b c d show ?thesis by blast
qed

theorem initialize_gate_counterexample:
  "initialize (new_CartSyncService ''s1'') nocred_db = (False, new_CartSyncService ''s1'') \<and>
   fst (processRecovery demo_env (new_CartSyncService ''s1'') ''c1'' nocred_db 0) \<and>
   map recoveryStatus
     (carts (fst (snd (processRecovery demo_env (new_CartSyncService ''s1'') ''c1'' nocred_db 0))))
     = [RECOVERED] \<and>
   stats_abandoned (getRecoveryStats (new_CartSyncService ''s1'') nocred_db) = 1 \<and>
   fst (initialize (new_CartSyncService ''s1'') nowhatsapp_db)"
  by code_simp

section \<open>A line item without a variant\<close>

text \<open>
  Claim C5 says that a remote checkout that is not yet imported gives no cart only when
  none of its line items resolves, and otherwise a cart of the resolved items. Evaluated
  at a checkout not yet imported whose first line item resolves (a mapped variant of an
  existing product) and whose second has no variant id: \<^verbatim>\<open>item.variant_id.toString()\<close>
  raises on the second, the \<^verbatim>\<open>catch\<close> of \<^verbatim>\<open>mapShopifyItemsToMetastore\<close> returns the
  empty list, the item already mapped is lost with it, and no cart is created. The same
  checkout with the first line item alone is imported.
\<close>

theorem importCheckout_variantless_line:
  "cart_findFirst import_db
     (\<lambda>c. shopifyCartId c = Some (checkout_id custom_checkout) \<and> storeId c = svc_storeId s1)
     = None \<and>
   line_items custom_checkout
     = [\<lparr>variant_id = Some ''v1'', li_quantity = 3\<rparr>, \<lparr>variant_id = None, li_quantity = 1\<rparr>] \<and>
   resolveLineItem s1 import_db \<lparr>variant_id = Some ''v1'', li_quantity = 3\<rparr>
     = Some \<lparr>item_id = ''p1'', item_name = ''Mug'', price = 25 / 2, quantity = 3,
             image = None\<rparr> \<and>
   mapShopifyItemsToMetastore s1 import_db (line_items custom_checkout) = [] \<and>
   importCheckout demo_env s1 custom_checkout 0 import_db 0 = (Some 0, import_db, 0) \<and>
   fst (importCheckout demo_env s1
          (custom_checkout\<lparr>line_items := [\<lparr>variant_id = Some ''v1'', li_quantity = 3\<rparr>]\<rparr>)
          0 import_db 0) = Some 1"
  by code_simp

section \<open>Importing the same remote checkout again\<close>

text \<open>
  Claim C4. A remote checkout whose id is already the remote cart id of a cart of the
  store is skipped: count, record store and world stay as they are. Once a checkout
  has been imported (the count was raised), the store holds exactly one cart with its
  remote id, and still exactly one after any further list of checkouts is imported,
  whatever it contains and however often the same id comes again. No import, neither
  \<^verbatim>\<open>importAbandonedCarts\<close> nor its loop on any list, takes the number of carts of one
  remote id in the store above one, and \<^verbatim>\<open>importAbandonedCarts\<close> keeps it at one when
  it is one.
\<close>

theorem importCheckout_idempotent:
  "(\<forall>existing. cart_findFirst db (\<lambda>c. shopifyCartId c = Some (checkout_id checkout) \<and>
                                       storeId c = svc_storeId svc) = Some existing \<longrightarrow>
       importCheckout env svc checkout n db w = (Some n, db, w)) \<and>
   (\<forall>db1 w1. importCheckout env svc checkout n db w = (Some (n + 1), db1, w1) \<longrightarrow>
       length (filter (remote_key (svc_storeId svc) (checkout_id checkout)) (carts db1)) = 1 \<and>
       (\<forall>cs m w2 r db2 w3. importCheckouts env svc cs m db1 w2 = (r, db2, w3) \<longrightarrow>
          length (filter (remote_key (svc_storeId svc) (checkout_id checkout)) (carts db2)) = 1)) \<and>
   (\<forall>cs rid r db' w'.
       importCheckouts env svc cs n db w = (r, db', w') \<and>
       length (filter (remote_key (svc_storeId svc) rid) (carts db)) \<le> 1 \<longrightarrow>
       length (filter (remote_key (svc_storeId svc) rid) (carts db')) \<le> 1) \<and>
   (\<forall>rid m db' w'.
       importAbandonedCarts env svc db w = (m, db', w') \<and>
       length (filter (remote_key (svc_storeId svc) rid) (carts db)) \<le> 1 \<longrightarrow>
       length (filter (remote_key (svc_storeId svc) rid) (carts db')) \<le> 1) \<and>
   (\<forall>rid m db' w'.
       importAbandonedCarts env svc db w = (m, db', w') \<and>
       length (filter (remote_key (svc_storeId svc) rid) (carts db)) = 1 \<longrightarrow>
       length (filter (remote_key (svc_storeId svc) rid) (carts db')) = 1)"
proof (intro conjI allI impI)
  fix existing
  assume "cart_findFirst db (\<lambda>c. shopifyCartId c = Some (checkout_id checkout) \<and>
                                  storeId c = svc_storeId svc) = Some existing"
  then show "importCheckout env svc checkout n db w = (Some n, db, w)"
    by (simp add: importCheckout_def)
next
  fix db1 w1
  assume created: "importCheckout env svc checkout n db w = (Some (n + 1), db1, w1)"
  from importCheckout_created [OF created]
  show one: "length (filter (remote_key (svc_storeId svc) (checkout_id checkout)) (carts db1)) = 1"
    by auto
  fix cs m w2 r db2 w3
  assume "importCheckouts env svc cs m db1 w2 = (r, db2, w3)"
  from importCheckouts_key_count [OF this, of "checkout_id checkout"] one
  show "length (filter (remote_key (svc_storeId svc) (checkout_id checkout)) (carts db2)) = 1"
    by simp
next
  fix cs rid r db' w'
  assume "importCheckouts env svc cs n db w = (r, db', w') \<and>
          length (filter (remote_key (svc_storeId svc) rid) (carts db)) \<le> 1"
  with importCheckouts_key_count [of env svc cs n db w r db' w' rid]
  show "length (filter (remote_key (svc_storeId svc) rid) (carts db')) \<le> 1"
    by simp
next
  fix rid m db' w'
  assume run: "importAbandonedCarts env svc db w = (m, db', w') \<and>
          length (filter (remote_key (svc_storeId svc) rid) (carts db)) \<le> 1"
  obtain cs w0 where fetched: "getAbandonedCarts env svc w = (cs, w0)"
    by (cases "getAbandonedCarts env svc w") auto
  obtain r where "importCheckouts env svc cs 0 db w0 = (r, db', w')"
    using run fetched
    by (cases "importCheckouts env svc cs 0 db w0")
       (auto simp: importAbandonedCarts_def split: option.splits)
  from importCheckouts_key_count [OF this, of rid] run
  show "length (filter (remote_key (svc_storeId svc) rid) (carts db')) \<le> 1"
    by simp
next
  fix rid m db' w'
  assume run: "importAbandonedCarts env svc db w = (m, db', w') \<and>
          length (filter (remote_key (svc_storeId svc) rid) (carts db)) = 1"
  obtain cs w0 where fetched: "getAbandonedCarts env svc w = (cs, w0)"
    by (cases "getAbandonedCarts env svc w") auto
  obtain r where "importCheckouts env svc cs 0 db w0 = (r, db', w')"
    using run fetched
    by (cases "importCheckouts env svc cs 0 db w0")
       (auto simp: importAbandonedCarts_def split: option.splits)
  from importCheckouts_key_count [OF this, of rid] run
  show "length (filter (remote_key (svc_storeId svc) rid) (carts db')) = 1"
    by simp
qed

theorem importCheckout_idempotent_witness:
  "fst (importCheckouts demo_env s1 two_checkouts 0 import_db 0) = Some 1 \<and>
   length (filter (remote_key (svc_storeId s1) ''901'')
             (carts (fst (snd (importCheckouts demo_env s1 two_checkouts 0 import_db 0))))) = 1"
proof -
  let ?db1 = "fst (snd (importCheckout demo_env s1 (hd two_checkouts) 0 import_db 0))"
  let ?out = "importCheckouts demo_env s1 [hd (tl two_checkouts)] 1 ?db1 1"
  have first: "importCheckout demo_env s1 (hd two_checkouts) 0 import_db 0 = (Some (0 + 1), ?db1, 1)"
    by code_simp
  have rest: "importCheckouts demo_env s1 two_checkouts 0 import_db 0 = ?out"
    by code_simp
  have again: "?out = (fst ?out, fst (snd ?out), snd (snd ?out))"
    by simp
  have count: "fst ?out = Some 1"
    by code_simp
  have rid: "checkout_id (hd two_checkouts) = ''901''"
    by (simp add: two_checkouts_def)
  from conjunct1 [OF conjunct2
         [OF importCheckout_idempotent [of import_db "hd two_checkouts" s1 demo_env 0 0]]]
       first again
  have "length (filter (remote_key (svc_storeId s1) (checkout_id (hd two_checkouts)))
                  (carts (fst (snd ?out)))) = 1"
    by blast
  with rest count rid show ?thesis by simp
qed

section \<open>Expiry of finally notified carts\<close>

text \<open>
  Claim C6, as the code has it. The fourth phase of the scan is one
  \<^verbatim>\<open>updateMany\<close>: it sets to \<open>LOST\<close> exactly the carts of the store whose status is
  \<open>NOTIFIED_FINAL\<close> and whose last-notified timestamp lies more than 48 hours before
  the time of the update (a cart notified exactly 48 hours before is left), and it
  returns their number. A \<open>LOST\<close> cart is selected by none of the three queries of
  the scan at any time, so a later update does not count it again. In one scan of a
  store whose service initialises, over a record store with unique cart keys, every
  cart that qualifies at the time the fourth phase reads the clock is \<open>LOST\<close>
  afterwards and otherwise as it was at the start of the scan.
\<close>

theorem processStore_marks_lost:
  "markLostCarts sid now db =
     (length (filter (lostWhere sid now) (carts db)),
      db\<lparr>carts := map (\<lambda>c. if lostWhere sid now c then c\<lparr>recoveryStatus := LOST\<rparr> else c)
                       (carts db)\<rparr>) \<and>
   (\<forall>c. lostWhere sid now c \<longleftrightarrow>
          storeId c = sid \<and> recoveryStatus c = NOTIFIED_FINAL \<and>
          (\<exists>t. lastNotifiedAt c = Some t \<and> now - t > 48 * 60 * 60 * 1000)) \<and>
   (\<forall>c t. recoveryStatus c = LOST \<longrightarrow>
          \<not> abandonedWhere sid t c \<and> \<not> followUpWhere sid t c \<and> \<not> lostWhere sid t c) \<and>
   (\<forall>now'. fst (markLostCarts sid now' (snd (markLostCarts sid now db)))
            = length (filter (\<lambda>c. \<not> lostWhere sid now c \<and> lostWhere sid now' c) (carts db))) \<and>
   (\<forall>svc results' db' w'.
       distinct (map cart_id (carts db)) \<and>
       initialize (new_CartSyncService sid) db = (True, svc) \<and>
       processStore env sid (results, db, w) = (results', db', w') \<longrightarrow>
       (\<exists>now4 w5. clock env w5 = (now4, w') \<and>
          (\<forall>c\<in>set (carts db). lostWhere sid now4 c \<longrightarrow>
              cart_findUnique db' (cart_id c) = Some (c\<lparr>recoveryStatus := LOST\<rparr>))))"
  using markLostCarts_eq [of sid now db] lostWhere_iff [of sid now]
    LOST_not_selected [of _ sid] markLostCarts_again [of sid _ now db]
    processStore_keeps_final [of db sid _ env results w]
  by blast

theorem processStore_marks_lost_witness:
  "cart_findUnique (fst (snd (processStore late_env ''s1'' (zero_results, lost_db, 0)))) ''c1''
     = Some ((mk_cart ''c1'' ''s1'' NOTIFIED_FINAL)\<lparr>lastNotifiedAt := Some 1000,
                                                     recoveryStatus := LOST\<rparr>)"
proof -
  let ?c = "(mk_cart ''c1'' ''s1'' NOTIFIED_FINAL)\<lparr>lastNotifiedAt := Some 1000\<rparr>"
  let ?out = "processStore late_env ''s1'' (zero_results, lost_db, 0)"
  have keys: "distinct (map cart_id (carts lost_db))"
    by (simp add: lost_db_def mk_db_def mk_cart_def)
  have init: "initialize (new_CartSyncService ''s1'') lost_db = (True, s1)"
    by code_simp
  have world: "snd (snd ?out) = 4"
    by code_simp
  then have run: "?out = (fst ?out, fst (snd ?out), 4)"
    by (simp add: prod_eq_iff)
  from processStore_marks_lost [of "''s1''" 0 lost_db late_env zero_results 0] keys init run
  obtain now4 w5 where clk: "clock late_env w5 = (now4, 4)"
    and lost: "\<forall>c\<in>set (carts lost_db). lostWhere ''s1'' now4 c \<longrightarrow>
                 cart_findUnique (fst (snd ?out)) (cart_id c) = Some (c\<lparr>recoveryStatus := LOST\<rparr>)"
    by blast
  from clk have now4: "now4 = 1000003000"
    by (auto simp: late_env_def demo_env_def)
  have "?c \<in> set (carts lost_db)"
    by (simp add: lost_db_def mk_db_def)
  moreover have "lostWhere ''s1'' now4 ?c"
    by (simp add: now4 lostWhere_def mk_cart_def)
  moreover have "cart_id ?c = ''c1''"
    by (simp add: mk_cart_def)
  ultimately show ?thesis
    using lost by fastforce
qed

theorem processStore_marks_lost_counterexample:
  "map lastNotifiedAt (carts lost_db) = [Some 1000, Some (1000003000 - 48 * 60 * 60 * 1000)] \<and>
   map recoveryStatus (carts lost_db) = [NOTIFIED_FINAL, NOTIFIED_FINAL] \<and>
   map recoveryStatus (carts (snd (markLostCarts ''s1'' 1000003000 lost_db)))
     = [LOST, NOTIFIED_FINAL] \<and>
   clock late_env 3 = (1000003000, 4) \<and>
   snd (snd (processStore late_env ''s1'' (zero_results, lost_db, 0))) = 4 \<and>
   map recoveryStatus (carts (fst (snd (processStore late_env ''s1'' (zero_results, lost_db, 0)))))
     = [LOST, NOTIFIED_FINAL]"
  by code_simp

section \<open>The percentage at a zero total\<close>

text \<open>
  Claim C2 says that the percentage is left out of the recovery message when the
  cart's total is zero. The template tests the discount amount only. Evaluated at a cart
  with total 0, discount code \<open>SAVE10\<close> and discount amount 5, the division by the
  total is carried out, its result is the infinite value, and the message reads
  \<open>Use code SAVE10 for Infinity% off!\<close>.
\<close>

theorem discountPercent_zero_total:
  "total free_cart = 0 \<and> discountCode free_cart = Some ''SAVE10'' \<and>
   discountAmount free_cart = Some 5 \<and>
   discountPercent (exponentNotation demo_env) free_cart = ''Infinity'' \<and>
   recoveryMessage (exponentNotation demo_env) free_cart (mk_store ''s1'') ''https://shop.example/c''
     = ''Hi Ada! '' @ waving_hand @ newline @ newline @
       ''We noticed you left some items in your cart at Corner Shop:'' @ newline @ newline @
       bullet @ '' Sample (1x): $0.00'' @ newline @ newline @
       ''Total: $0.00'' @ newline @ newline @
       ''Use code SAVE10 for Infinity% off! '' @ party_popper @ newline @ newline @
       ''Checkout now: https://shop.example/c''"
  by code_simp

end
